theory Spec2Isabelle
  imports Main
begin

section \<open>JavaScript strings and numbers\<close>

text \<open>
  A JavaScript string is modelled as a \<^typ>\<open>string\<close>; a \<^typ>\<open>char\<close> stands for one UTF-16
  code unit below \<open>0x100\<close>. \<open>startsWith\<close> and \<open>includes_str\<close> are
  \<^verbatim>\<open>String.prototype.startsWith\<close> and \<^verbatim>\<open>String.prototype.includes\<close> at position 0.
\<close>

fun startsWith :: "string \<Rightarrow> string \<Rightarrow> bool" where
  "startsWith s [] = True"
| "startsWith [] (p # ps) = False"
| "startsWith (c # cs) (p # ps) = (c = p \<and> startsWith cs ps)"

fun includes_str :: "string \<Rightarrow> string \<Rightarrow> bool" where
  "includes_str [] p = startsWith [] p"
| "includes_str (c # cs) p = (startsWith (c # cs) p \<or> includes_str cs p)"

text \<open>
  A JavaScript number, as far as the program uses it: \<open>NaN\<close> or an integer. \<open>Num n\<close> stands
  for the double nearest to \<open>n\<close>. Up to \<open>2^53\<close> in absolute value a double holds the integer
  exactly and the two are the same; beyond that the code has the rounded value (or
  \<open>Infinity\<close>), which is not modelled, so the statements on parsed values below are made for
  integers up to \<open>2^53\<close>. Rounding keeps the sign and never gives \<open>NaN\<close>. The sign of zero
  is not modelled.
\<close>

datatype number = NaN | Num int

fun isNaN :: "number \<Rightarrow> bool" where
  "isNaN NaN = True"
| "isNaN (Num n) = False"

text \<open>\<^verbatim>\<open>a >= b\<close> and \<^verbatim>\<open>a < b\<close> on numbers: every comparison with \<open>NaN\<close> is false.\<close>

fun ge :: "number \<Rightarrow> number \<Rightarrow> bool" where
  "ge (Num a) (Num b) = (a \<ge> b)"
| "ge _ _ = False"

fun lt :: "number \<Rightarrow> number \<Rightarrow> bool" where
  "lt (Num a) (Num b) = (a < b)"
| "lt _ _ = False"

text \<open>White space and line terminators of ECMAScript that fit in a \<^typ>\<open>char\<close>:
  TAB, LF, VT, FF, CR, SP and NBSP.\<close>

definition isWhiteSpace :: "char \<Rightarrow> bool" where
  "isWhiteSpace c = (of_char c \<in> {9, 10, 11, 12, 13, 32, 160 :: nat})"

definition trim :: "string \<Rightarrow> string" where
  "trim s = rev (dropWhile isWhiteSpace (rev (dropWhile isWhiteSpace s)))"

definition isDigit :: "char \<Rightarrow> bool" where
  "isDigit c = (48 \<le> (of_char c :: nat) \<and> (of_char c :: nat) \<le> 57)"

definition digitVal :: "char \<Rightarrow> int" where
  "digitVal c = int (of_char c) - 48"

definition digitsValue :: "string \<Rightarrow> int" where
  "digitsValue ds = foldl (\<lambda>acc c. acc * 10 + digitVal c) 0 ds"

text \<open>\<^verbatim>\<open>parseInt(s, 10)\<close>: skip leading white space, read an optional sign, then the longest
  run of decimal digits; \<open>NaN\<close> when that run is empty. Whatever follows the digits is ignored.
  The result is the integer the digits denote (the \<open>mathInt\<close> of ECMAScript), which is the
  value of the code for integers up to \<open>2^53\<close> in absolute value.\<close>

definition parseInt :: "string \<Rightarrow> number" where
  "parseInt s =
     (let s1 = dropWhile isWhiteSpace s;
          sign = (case s1 of c # _ \<Rightarrow> if c = CHR ''-'' then -1 else 1 | [] \<Rightarrow> 1);
          s2 = (case s1 of c # r \<Rightarrow> if c = CHR ''+'' \<or> c = CHR ''-'' then r else s1 | [] \<Rightarrow> s1);
          z = takeWhile isDigit s2
      in if z = [] then NaN else Num (sign * digitsValue z))"

text \<open>Number-to-string conversion of a non-negative integer, as a template literal
  \<^verbatim>\<open>`${n}`\<close> does it.\<close>

definition digitChar :: "nat \<Rightarrow> char" where
  "digitChar d = char_of (48 + d)"

fun showNat :: "nat \<Rightarrow> string" where
  "showNat n = (if n < 10 then [digitChar n] else showNat (n div 10) @ [digitChar (n mod 10)])"

declare showNat.simps [simp del]

definition showInt :: "int \<Rightarrow> string" where
  "showInt i = (if i < 0 then CHR ''-'' # showNat (nat (- i)) else showNat (nat i))"

section \<open>Configuration (src/utils/config.ts)\<close>

datatype network = regtest | testnet | signet | mainnet

fun getNetworkFlag :: "network \<Rightarrow> string" where
  "getNetworkFlag mainnet = ''''"
| "getNetworkFlag testnet = ''-testnet''"
| "getNetworkFlag signet = ''-signet''"
| "getNetworkFlag regtest = ''-regtest''"

fun getOrdNetworkFlag :: "network \<Rightarrow> string" where
  "getOrdNetworkFlag mainnet = ''''"
| "getOrdNetworkFlag testnet = ''--testnet''"
| "getOrdNetworkFlag signet = ''--signet''"
| "getOrdNetworkFlag regtest = ''--regtest''"

text \<open>\<open>getRpcPort\<close> reads \<open>config.bitcoindRpcPort\<close> through \<open>getConfig()\<close>; the configured
  value is the first argument here.\<close>

definition getRpcPort :: "int \<Rightarrow> network \<Rightarrow> int" where
  "getRpcPort bitcoindRpcPort nw =
     (if bitcoindRpcPort \<noteq> 18443 then bitcoindRpcPort
      else (case nw of
              mainnet \<Rightarrow> 8332
            | testnet \<Rightarrow> 18332
            | signet \<Rightarrow> 38332
            | regtest \<Rightarrow> 18443))"

section \<open>The indexer's HTTP surface (services/ord.ts)\<close>

definition isVersionMismatchError :: "string \<Rightarrow> bool" where
  "isVersionMismatchError errorMessage =
     (includes_str errorMessage ''Manual upgrade required'' \<or>
      includes_str errorMessage ''Expected file format version'' \<or>
      includes_str errorMessage ''failed to open index'' \<or>
      includes_str errorMessage ''failed to open wallet database'')"

text \<open>What one \<^verbatim>\<open>http.request\<close> to \<^verbatim>\<open>/blockcount\<close> ends in: a response with its status code
  and complete body, an \<^verbatim>\<open>'error'\<close> event with its message, or a \<^verbatim>\<open>'timeout'\<close> event.\<close>

datatype http_result = Response nat string | RequestError string | RequestTimeout

fun isOrdServerReady :: "http_result \<Rightarrow> bool" where
  "isOrdServerReady (Response statusCode body) =
     (if statusCode = 200 then
        (let parsed = parseInt (trim body) in \<not> isNaN parsed \<and> ge parsed (Num 0))
      else False)"
| "isOrdServerReady (RequestError err) = False"
| "isOrdServerReady RequestTimeout = False"

record OrdHealthCheck =
  healthy :: bool
  blockcount :: "number option"
  error :: "string option"

fun verifyOrdBitcoindConnection :: "http_result \<Rightarrow> OrdHealthCheck" where
  "verifyOrdBitcoindConnection (Response statusCode body) =
     (if statusCode = 200 then
        (let parsed = parseInt (trim body) in
         if \<not> isNaN parsed \<and> ge parsed (Num 0)
         then \<lparr>healthy = True, blockcount = Some parsed, error = None\<rparr>
         else \<lparr>healthy = False, blockcount = None,
               error = Some (''Invalid blockcount response: '' @ body)\<rparr>)
      else if statusCode = 500 then
        \<lparr>healthy = False, blockcount = None,
         error = Some (''Server error (likely auth failure): '' @ body)\<rparr>
      else
        \<lparr>healthy = False, blockcount = None,
         error = Some (''HTTP '' @ showNat statusCode @ '': '' @ body)\<rparr>)"
| "verifyOrdBitcoindConnection (RequestError message) =
     \<lparr>healthy = False, blockcount = None, error = Some (''Connection error: '' @ message)\<rparr>"
| "verifyOrdBitcoindConnection RequestTimeout =
     \<lparr>healthy = False, blockcount = None, error = Some ''Request timeout''\<rparr>"


section \<open>Effects and the environment\<close>

text \<open>
  Everything the program does to the outside world is recorded, in order, as an event of
  the trace; log lines are left out. \<open>StartOrdServerCalled\<close> marks an invocation of
  \<open>startOrdServer\<close> with the value of its \<open>retryAfterIndexClear\<close> parameter.
  \<open>ClearOrdIndex\<close> and \<open>ClearOrdWallet\<close> stand for the calls of \<open>clearOrdIndex\<close> and
  \<open>clearOrdWallet\<close>, which delete the index file and the wallet directories of a network
  (new and legacy locations); the single deletions are not modelled further.
  \<open>Exec\<close> is a run of the ord binary with its arguments, \<open>OrdWallet\<close> a call of one
  of the wallet operations whose own body is not modelled (\<open>receive\<close>, \<open>balance\<close>),
  \<open>RpcCall\<close> a call of \<open>rpcCall\<close> with method, parameters and wallet.
\<close>

datatype platform = windows | macos | linux

datatype rpc_param = PNum number | PStr string | PBool bool

datatype event =
    StartOrdServerCalled bool
  | KillProcessOnPort int
  | Netstat int
  | MkdirSync string
  | Spawn string "string list"
  | Exec string "string list"
  | ClearOrdIndex network
  | ClearOrdWallet network
  | ShowInformationMessage string
  | ShowWarningMessage string
  | ShowErrorMessage string
  | ShowErrorWithSuggestion string string
  | OrdWallet string
  | RpcCall string "rpc_param list" "string option"
  | EnsureServicesRunning
  | InscribeFile string int
  | AddInscription string string
  | RefreshWalletTree
  | RefreshInscriptionsTree

text \<open>The module-level variables \<open>ordProcess\<close> and \<open>bitcoindProcess\<close> are kept as the
  two facts the code reads from them: whether the handle is non-null with a null exit code.\<close>

record state =
  trace :: "event list"
  ordAlive :: bool
  bitcoindAlive :: bool

definition emit :: "event \<Rightarrow> state \<Rightarrow> state" where
  "emit ev st = st\<lparr>trace := trace st @ [ev]\<rparr>"

text \<open>What the callback of \<^verbatim>\<open>child_process.exec\<close> receives: the message of \<open>error\<close>
  (\<open>None\<close> when \<open>error\<close> is null, that is on exit code 0), \<open>stdout\<close> and \<open>stderr\<close>.\<close>

record exec_result =
  execError :: "string option"
  stdout :: string
  stderr :: string

text \<open>What one pass of the readiness loop of \<open>startOrdServer\<close> observes: the stderr chunks
  delivered since the previous pass, the outcome of the \<^verbatim>\<open>/blockcount\<close> probe, and whether
  the process is still running when \<open>isOrdRunning()\<close> is evaluated.\<close>

record ord_poll =
  stderrChunks :: "string list"
  blockcountProbe :: http_result
  processAlive :: bool

record balance =
  cardinal :: number
  ordinal :: number
  total :: number

text \<open>
  The environment: the configuration (\<open>getConfig()\<close>), the values of the helpers of
  \<^verbatim>\<open>utils/platform\<close> and \<^verbatim>\<open>utils/walletState\<close>, and the answers of the outside world. An answer
  may depend on everything that happened before, so it is a function of the trace at the
  moment of asking. For a loop, the answer table is fixed by the trace at the loop's start
  and indexed by the pass.
\<close>

record env =
  cfgNetwork :: network
  cfgBitcoindRpcPort :: int
  cfgOrdServerPort :: int
  getPlatform :: platform
  getOrdPath :: string
  getBitcoindPath :: string
  getOrdDataDirectory :: string
  getBitcoinDataDirectory :: string
  getCookieFilePath :: string
  getCurrentWallet :: string
  pathBasename :: "string \<Rightarrow> string"
  existsSync :: "event list \<Rightarrow> string \<Rightarrow> bool"
  ordPolls :: "event list \<Rightarrow> nat \<Rightarrow> ord_poll"
  execOrd :: "event list \<Rightarrow> string list \<Rightarrow> exec_result"
  netstatListening :: "event list \<Rightarrow> int \<Rightarrow> exec_result"
  bitcoindPolls :: "event list \<Rightarrow> nat \<Rightarrow> bool \<times> bool"
  rpcGetBlockchainInfo :: "event list \<Rightarrow> string + unit"
  rpcListWallets :: "event list \<Rightarrow> string + string list"
  rpcCreateWallet :: "event list \<Rightarrow> string \<Rightarrow> string + unit"
  rpcLoadWallet :: "event list \<Rightarrow> string \<Rightarrow> string + unit"
  rpcGetNewAddress :: "event list \<Rightarrow> string \<Rightarrow> string + string"
  rpcGenerateToAddress :: "event list \<Rightarrow> number \<Rightarrow> string \<Rightarrow> string + string list"
  rpcGetBlockCount :: "event list \<Rightarrow> string + number"
  ordReceiveAddress :: "event list \<Rightarrow> string + string"
  ordBalance :: "event list \<Rightarrow> string + balance"
  ordInscribe :: "event list \<Rightarrow> string \<Rightarrow> string + string"
  servicesRunning :: "event list \<Rightarrow> string + bool"
  showInputBox :: "event list \<Rightarrow> string option"
  warningChoice :: "event list \<Rightarrow> string option"
  syncPolls :: "event list \<Rightarrow> nat \<Rightarrow> http_result \<times> nat"

section \<open>The indexer service (services/ord.ts)\<close>

definition clearAllOrdData :: "network \<Rightarrow> state \<Rightarrow> state" where
  "clearAllOrdData nw st = emit (ClearOrdWallet nw) (emit (ClearOrdIndex nw) st)"

definition isOrdRunning :: "state \<Rightarrow> bool" where
  "isOrdRunning st = ordAlive st"

text \<open>\<open>killProcessOnPort\<close> does nothing unless the platform is Windows.\<close>

definition killProcessOnPort :: "env \<Rightarrow> int \<Rightarrow> state \<Rightarrow> state" where
  "killProcessOnPort e port st =
     (if getPlatform e \<noteq> windows then st else emit (KillProcessOnPort port) st)"

text \<open>How the readiness loop of \<open>startOrdServer\<close> is left: the probe succeeded (with the
  state of the process at that moment), the process was found dead (with the flag
  \<open>indexVersionError\<close> and the accumulated \<open>stderrOutput\<close>), or the 60 passes are used up.\<close>

datatype ready_outcome = Ready bool | Died bool string | TimedOut

definition maxAttemptsOrd :: nat where
  "maxAttemptsOrd = 60"

text \<open>The stderr handler tests each chunk on its own against the four signatures.\<close>

definition chunkHasVersionError :: "string \<Rightarrow> bool" where
  "chunkHasVersionError text =
     (includes_str text ''Manual upgrade required'' \<or>
      includes_str text ''Expected file format version'' \<or>
      includes_str text ''failed to open index'' \<or>
      includes_str text ''failed to open wallet database'')"

function waitOrdReady :: "(nat \<Rightarrow> ord_poll) \<Rightarrow> nat \<Rightarrow> bool \<Rightarrow> string \<Rightarrow> ready_outcome" where
  "waitOrdReady polls i indexVersionError stderrOutput =
     (if i < maxAttemptsOrd then
        (let p = polls i;
             stderrOutput' = stderrOutput @ concat (stderrChunks p);
             indexVersionError' =
               (indexVersionError \<or> list_ex chunkHasVersionError (stderrChunks p))
         in if isOrdServerReady (blockcountProbe p) then Ready (processAlive p)
            else if \<not> processAlive p then Died indexVersionError' stderrOutput'
            else waitOrdReady polls (Suc i) indexVersionError' stderrOutput')
      else TimedOut)"
  by pat_completeness auto
termination
  by (relation "measure (\<lambda>(polls, i, ive, err). maxAttemptsOrd - i)") auto

declare waitOrdReady.simps [simp del]

definition ordServerArgs :: "env \<Rightarrow> string list" where
  "ordServerArgs e =
     (let networkFlag = getOrdNetworkFlag (cfgNetwork e)
      in (if networkFlag \<noteq> [] then [networkFlag] else []) @
         [''--cookie-file='' @ getCookieFilePath e,
          ''--data-dir='' @ getOrdDataDirectory e,
          ''server'',
          ''--http-port='' @ showInt (cfgOrdServerPort e)])"

function startOrdServer :: "env \<Rightarrow> bool \<Rightarrow> state \<Rightarrow> (string + unit) \<times> state" where
  "startOrdServer e retryAfterIndexClear st0 =
     (let st = emit (StartOrdServerCalled retryAfterIndexClear) st0 in
      if isOrdRunning st then (Inr (), st)
      else if \<not> existsSync e (trace st) (getOrdPath e)
      then (Inl ''ord not found. Please download binaries first.'', st)
      else
        (let st1 = killProcessOnPort e (cfgOrdServerPort e) st;
             st2 = emit (MkdirSync (getOrdDataDirectory e)) st1
         in if \<not> existsSync e (trace st2) (getCookieFilePath e)
            then (Inl (''Bitcoin cookie file not found at '' @ getCookieFilePath e @
                       ''. Ensure bitcoind is running.''), st2)
            else
              (let st3 = emit (Spawn (getOrdPath e) (ordServerArgs e)) st2
               in case waitOrdReady (ordPolls e (trace st3)) 0 False [] of
                    Ready alive \<Rightarrow> (Inr (), st3\<lparr>ordAlive := alive\<rparr>)
                  | TimedOut \<Rightarrow>
                      (Inl ''ord server failed to become ready in time'', st3\<lparr>ordAlive := True\<rparr>)
                  | Died indexVersionError stderrOutput \<Rightarrow>
                      (let st4 = st3\<lparr>ordAlive := False\<rparr>
                       in if indexVersionError \<and> retryAfterIndexClear then
                            startOrdServer e False
                              (clearAllOrdData (cfgNetwork e)
                                (emit (ShowInformationMessage
                                   ''Ord database is outdated. Clearing and rebuilding (this may take a moment)...'')
                                   st4))
                          else
                            (Inl (''ord server failed to start'' @
                                  (if stderrOutput \<noteq> [] then '': '' @ take 200 stderrOutput else [])),
                             st4)))))"
  by pat_completeness auto
termination
  by (relation "measure (\<lambda>(e, retry, st). if retry then 1 else 0)") auto

declare startOrdServer.simps [simp del]

definition ordWalletArgs :: "env \<Rightarrow> string \<Rightarrow> string list \<Rightarrow> string list" where
  "ordWalletArgs e wallet sub =
     (let networkFlag = getOrdNetworkFlag (cfgNetwork e)
      in (if networkFlag \<noteq> [] then [networkFlag] else []) @
         [''--cookie-file='' @ getCookieFilePath e,
          ''--data-dir='' @ getOrdDataDirectory e,
          ''wallet'',
          ''--name='' @ wallet,
          ''--server-url=http://127.0.0.1:'' @ showInt (cfgOrdServerPort e)] @ sub)"

text \<open>\<^verbatim>\<open>walletName || getCurrentWallet()\<close>: an absent or empty name falls back to the
  current wallet.\<close>

definition walletOrCurrent :: "env \<Rightarrow> string option \<Rightarrow> string" where
  "walletOrCurrent e walletName =
     (case walletName of
        None \<Rightarrow> getCurrentWallet e
      | Some w \<Rightarrow> if w \<noteq> [] then w else getCurrentWallet e)"

function createOrdWallet :: "env \<Rightarrow> string option \<Rightarrow> bool \<Rightarrow> state \<Rightarrow> (string + unit) \<times> state" where
  "createOrdWallet e walletName retryAfterClear st =
     (let wallet = walletOrCurrent e walletName;
          args = ordWalletArgs e wallet [''create''];
          r = execOrd e (trace st) args;
          st1 = emit (Exec (getOrdPath e) args) st
      in case execError r of
           None \<Rightarrow> (Inr (), st1)
         | Some message \<Rightarrow>
             if includes_str (stderr r) ''already exists'' \<or> includes_str (stdout r) ''already exists''
             then (Inr (), st1)
             else if isVersionMismatchError (stderr r) \<and> retryAfterClear then
               createOrdWallet e (Some wallet) False
                 (clearAllOrdData (cfgNetwork e)
                   (emit (ShowInformationMessage
                      ''Ord wallet database is outdated. Clearing and recreating...'') st1))
             else
               (Inl (''Failed to create wallet: '' @ (if stderr r \<noteq> [] then stderr r else message)),
                st1))"
  by pat_completeness auto
termination
  by (relation "measure (\<lambda>(e, w, retry, st). if retry then 1 else 0)") auto

declare createOrdWallet.simps [simp del]


text \<open>\<open>getOrdBlockCount\<close> on the outcome of its request; unlike the readiness probe it
  accepts every parsed number, also a negative one.\<close>

fun getOrdBlockCount :: "http_result \<Rightarrow> string + number" where
  "getOrdBlockCount (Response statusCode body) =
     (if statusCode = 200 then
        (let parsed = parseInt (trim body) in
         if \<not> isNaN parsed then Inr parsed else Inl (''Invalid blockcount: '' @ body))
      else Inl (''HTTP '' @ showNat statusCode @ '': '' @ body))"
| "getOrdBlockCount (RequestError message) = Inl message"
| "getOrdBlockCount RequestTimeout = Inl ''Timeout''"

text \<open>
  The loop of \<open>waitForOrdSync\<close>. \<open>elapsed\<close> is \<^verbatim>\<open>Date.now() - startTime\<close> in milliseconds at the
  loop test; a pass takes the 500 ms of its sleep plus whatever the request and the timer
  took beyond that (the second component of the poll). The clock is taken to be monotonic.
\<close>

function waitForOrdSyncLoop :: "(nat \<Rightarrow> http_result \<times> nat) \<Rightarrow> number \<Rightarrow> nat \<Rightarrow> nat \<Rightarrow> nat \<Rightarrow> bool" where
  "waitForOrdSyncLoop polls expectedBlocks maxWaitMs i elapsed =
     (if elapsed < maxWaitMs then
        (case getOrdBlockCount (fst (polls i)) of
           Inr ordBlocks \<Rightarrow>
             if ge ordBlocks expectedBlocks then True
             else waitForOrdSyncLoop polls expectedBlocks maxWaitMs (Suc i)
                    (elapsed + 500 + snd (polls i))
         | Inl err \<Rightarrow>
             waitForOrdSyncLoop polls expectedBlocks maxWaitMs (Suc i)
               (elapsed + 500 + snd (polls i)))
      else False)"
  by pat_completeness auto
termination
  by (relation "measure (\<lambda>(polls, expected, maxWaitMs, i, elapsed). maxWaitMs - elapsed)") auto

declare waitForOrdSyncLoop.simps [simp del]

definition waitForOrdSync :: "env \<Rightarrow> number \<Rightarrow> nat \<Rightarrow> state \<Rightarrow> bool" where
  "waitForOrdSync e expectedBlocks maxWaitMs st =
     waitForOrdSyncLoop (syncPolls e (trace st)) expectedBlocks maxWaitMs 0 0"

text \<open>The wallet operations \<open>getOrdReceiveAddress\<close>, \<open>getOrdBalance\<close> and \<open>inscribeFile\<close>
  are taken by their outcome: the resolved value or the message of the rejection.\<close>

definition getOrdReceiveAddress :: "env \<Rightarrow> state \<Rightarrow> (string + string) \<times> state" where
  "getOrdReceiveAddress e st = (ordReceiveAddress e (trace st), emit (OrdWallet ''receive'') st)"

definition getOrdBalance :: "env \<Rightarrow> state \<Rightarrow> (string + balance) \<times> state" where
  "getOrdBalance e st = (ordBalance e (trace st), emit (OrdWallet ''balance'') st)"

definition inscribeFile :: "env \<Rightarrow> string \<Rightarrow> int \<Rightarrow> state \<Rightarrow> (string + string) \<times> state" where
  "inscribeFile e filePath feeRate st =
     (ordInscribe e (trace st) filePath, emit (InscribeFile filePath feeRate) st)"

section \<open>The RPC client (utils/rpc.ts)\<close>

definition listBitcoinWallets :: "env \<Rightarrow> state \<Rightarrow> (string + string list) \<times> state" where
  "listBitcoinWallets e st =
     (rpcListWallets e (trace st), emit (RpcCall ''listwallets'' [] None) st)"

definition createBitcoinWallet :: "env \<Rightarrow> string \<Rightarrow> state \<Rightarrow> (string + unit) \<times> state" where
  "createBitcoinWallet e name st =
     (rpcCreateWallet e (trace st) name,
      emit (RpcCall ''createwallet''
              [PStr name, PBool False, PBool False, PStr [], PBool False, PBool True] None) st)"

definition loadWallet :: "env \<Rightarrow> string \<Rightarrow> state \<Rightarrow> (string + unit) \<times> state" where
  "loadWallet e name st =
     (rpcLoadWallet e (trace st) name, emit (RpcCall ''loadwallet'' [PStr name] None) st)"

definition getNewAddress :: "env \<Rightarrow> string \<Rightarrow> state \<Rightarrow> (string + string) \<times> state" where
  "getNewAddress e wallet st =
     (rpcGetNewAddress e (trace st) wallet, emit (RpcCall ''getnewaddress'' [] (Some wallet)) st)"

definition generateToAddress :: "env \<Rightarrow> number \<Rightarrow> string \<Rightarrow> state \<Rightarrow> (string + string list) \<times> state" where
  "generateToAddress e numBlocks address st =
     (rpcGenerateToAddress e (trace st) numBlocks address,
      emit (RpcCall ''generatetoaddress'' [PNum numBlocks, PStr address] None) st)"

definition getBlockCount :: "env \<Rightarrow> state \<Rightarrow> (string + number) \<times> state" where
  "getBlockCount e st =
     (rpcGetBlockCount e (trace st), emit (RpcCall ''getblockcount'' [] None) st)"

definition isBitcoindReady :: "env \<Rightarrow> state \<Rightarrow> bool \<times> state" where
  "isBitcoindReady e st =
     ((case rpcGetBlockchainInfo e (trace st) of Inl err \<Rightarrow> False | Inr info \<Rightarrow> True),
      emit (RpcCall ''getblockchaininfo'' [] None) st)"

section \<open>The node service (services/bitcoind.ts)\<close>

definition isBitcoindRunning :: "state \<Rightarrow> bool" where
  "isBitcoindRunning st = bitcoindAlive st"

text \<open>\<open>checkPortInUse\<close> answers \<open>false\<close> at once unless the platform is Windows; there it
  runs \<^verbatim>\<open>netstat -ano | findstr :port | findstr LISTENING\<close>.\<close>

definition checkPortInUse :: "env \<Rightarrow> int \<Rightarrow> state \<Rightarrow> bool \<times> state" where
  "checkPortInUse e port st =
     (if getPlatform e \<noteq> windows then (False, st)
      else
        (let r = netstatListening e (trace st) port;
             st1 = emit (Netstat port) st
         in if execError r \<noteq> None \<or> trim (stdout r) = [] then (False, st1) else (True, st1)))"

definition bitcoindArgs :: "env \<Rightarrow> int \<Rightarrow> string list" where
  "bitcoindArgs e rpcPort =
     (let networkFlag = getNetworkFlag (cfgNetwork e)
      in (if networkFlag \<noteq> [] then [networkFlag] else []) @
         [''-server'',
          ''-rpcport='' @ showInt rpcPort,
          ''-datadir='' @ getBitcoinDataDirectory e,
          ''-fallbackfee=0.00001'',
          ''-txindex=1''] @
         (if cfgNetwork e = regtest then [''-rpcallowip=127.0.0.1'', ''-rpcbind=127.0.0.1''] else []))"

definition maxAttemptsBitcoind :: nat where
  "maxAttemptsBitcoind = 30"

text \<open>The readiness loop of \<open>startBitcoind\<close>; a poll is the answer of \<open>isBitcoindReady()\<close>
  and of \<open>isBitcoindRunning()\<close> in that pass.\<close>

function waitBitcoindReady :: "(nat \<Rightarrow> bool \<times> bool) \<Rightarrow> nat \<Rightarrow> state \<Rightarrow> (string + unit) \<times> state" where
  "waitBitcoindReady polls i st =
     (if i < maxAttemptsBitcoind then
        (let ready = fst (polls i);
             alive = snd (polls i);
             st1 = emit (RpcCall ''getblockchaininfo'' [] None) st
         in if ready then (Inr (), st1\<lparr>bitcoindAlive := alive\<rparr>)
            else if \<not> alive then (Inl ''bitcoind failed to start'', st1\<lparr>bitcoindAlive := False\<rparr>)
            else waitBitcoindReady polls (Suc i) st1)
      else (Inl ''bitcoind failed to become ready in time'', st\<lparr>bitcoindAlive := True\<rparr>))"
  by pat_completeness auto
termination
  by (relation "measure (\<lambda>(polls, i, st). maxAttemptsBitcoind - i)") auto

declare waitBitcoindReady.simps [simp del]

definition startBitcoind :: "env \<Rightarrow> state \<Rightarrow> (string + unit) \<times> state" where
  "startBitcoind e st =
     (if isBitcoindRunning st then (Inr (), st)
      else if \<not> existsSync e (trace st) (getBitcoindPath e)
      then (Inl ''bitcoind not found. Please download binaries first.'', st)
      else
        (let rpcPort = getRpcPort (cfgBitcoindRpcPort e) (cfgNetwork e);
             (inUse, st1) = checkPortInUse e rpcPort st
         in if inUse then
              (let (ready, st2) = isBitcoindReady e st1
               in if ready then (Inr (), st2)
                  else (Inl (''Port '' @ showInt rpcPort @
                             '' is in use but bitcoind is not responding. Another process may be using this port.''),
                        st2))
            else
              (let st2 = emit (MkdirSync (getBitcoinDataDirectory e)) st1;
                   st3 = emit (Spawn (getBitcoindPath e) (bitcoindArgs e rpcPort)) st2
               in waitBitcoindReady (bitcoindPolls e (trace st3)) 0 st3)))"

section \<open>Wallet commands (commands/wallet.ts)\<close>

definition COINBASE_MATURITY :: int where
  "COINBASE_MATURITY = 100"

fun networkName :: "network \<Rightarrow> string" where
  "networkName regtest = ''regtest''"
| "networkName testnet = ''testnet''"
| "networkName signet = ''signet''"
| "networkName mainnet = ''mainnet''"

text \<open>The address to mine to: the ord wallet's receive address, and when that fails a new
  address of the separate wallet \<open>mining\<close>, created first if it is not listed.\<close>

definition miningAddress :: "env \<Rightarrow> state \<Rightarrow> (string + string) \<times> state" where
  "miningAddress e st =
     (case getOrdReceiveAddress e st of
        (Inr address, st1) \<Rightarrow> (Inr address, st1)
      | (Inl err, st1) \<Rightarrow>
          (case listBitcoinWallets e st1 of
             (Inl err2, st2) \<Rightarrow> (Inl err2, st2)
           | (Inr wallets, st2) \<Rightarrow>
               (case (if ''mining'' \<notin> set wallets then createBitcoinWallet e ''mining'' st2
                      else (Inr (), st2)) of
                  (Inl err3, st3) \<Rightarrow> (Inl err3, st3)
                | (Inr u, st3) \<Rightarrow> getNewAddress e ''mining'' st3)))"

text \<open>\<open>mineBlocks\<close>. The input box resolves to \<open>undefined\<close> (\<open>None\<close>) or to the text the
  user confirmed. The button of \<open>showWarningWithAction\<close> is not followed.\<close>

definition mineBlocks :: "env \<Rightarrow> state \<Rightarrow> state" where
  "mineBlocks e st =
     (if cfgNetwork e \<noteq> regtest then
        emit (ShowWarningMessage
                (''Mining is only available in regtest mode (current: '' @
                 networkName (cfgNetwork e) @ '').'')) st
      else if \<not> isBitcoindRunning st then
        emit (ShowWarningMessage ''Bitcoin Core is not running. Start services to mine blocks.'') st
      else
        (case showInputBox e (trace st) of
           None \<Rightarrow> st
         | Some input \<Rightarrow>
             if input = [] then st
             else
               (let numBlocks = parseInt input in
                case miningAddress e st of
                  (Inl err, st1) \<Rightarrow> emit (ShowErrorWithSuggestion ''Failed to mine blocks'' err) st1
                | (Inr address, st1) \<Rightarrow>
                    (case generateToAddress e numBlocks address st1 of
                       (Inl err, st2) \<Rightarrow>
                         emit (ShowErrorWithSuggestion ''Failed to mine blocks'' err) st2
                     | (Inr blocks, st2) \<Rightarrow>
                         emit RefreshWalletTree
                           (emit (ShowInformationMessage
                                    (''Mined '' @ showNat (length blocks) @ '' block(s)!'')) st2)))))"

text \<open>The body of the \<^verbatim>\<open>try\<close> of \<open>ensureWalletFunded\<close>: \<open>Inl\<close> is an exception reaching the
  outer \<^verbatim>\<open>catch\<close>.\<close>

definition ensureWalletFunded_try :: "env \<Rightarrow> state \<Rightarrow> (string + bool) \<times> state" where
  "ensureWalletFunded_try e st =
     (case createOrdWallet e None True st of
        (r1, st1) \<Rightarrow>
          (case (case r1 of
                   Inl msg \<Rightarrow> if \<not> includes_str msg ''already exists'' then Some msg else None
                 | Inr u \<Rightarrow> None) of
             Some msg \<Rightarrow> (Inl msg, st1)
           | None \<Rightarrow>
               (case listBitcoinWallets e st1 of
                  (Inl err, st2) \<Rightarrow> (Inl err, st2)
                | (Inr wallets, st2) \<Rightarrow>
                    (let st3 =
                           (if ''mining'' \<notin> set wallets then
                              (case createBitcoinWallet e ''mining'' st2 of
                                 (Inl err, s) \<Rightarrow> snd (loadWallet e ''mining'' s)
                               | (Inr u, s) \<Rightarrow> s)
                            else st2)
                     in case getOrdBalance e st3 of
                          (Inl err, st4) \<Rightarrow> (Inl err, st4)
                        | (Inr balance, st4) \<Rightarrow>
                            if lt (cardinal balance) (Num 10000) \<and> cfgNetwork e = regtest then
                              (case getOrdReceiveAddress e st4 of
                                 (Inl err, st5) \<Rightarrow> (Inl err, st5)
                               | (Inr address, st5) \<Rightarrow>
                                   (let blocksToMine = COINBASE_MATURITY + 1 in
                                    case generateToAddress e (Num blocksToMine) address st5 of
                                      (Inl err, st6) \<Rightarrow> (Inl err, st6)
                                    | (Inr blocks, st6) \<Rightarrow> (Inr True, st6)))
                            else (Inr (ge (cardinal balance) (Num 10000)), st4)))))"

definition ensureWalletFunded :: "env \<Rightarrow> state \<Rightarrow> bool \<times> state" where
  "ensureWalletFunded e st =
     (case ensureWalletFunded_try e st of
        (Inl err, st1) \<Rightarrow> (False, st1)
      | (Inr funded, st1) \<Rightarrow> (funded, st1))"

section \<open>The publish workflow (commands/inscribe.ts)\<close>

record InscribeResult =
  inscriptionId :: string
  localUrl :: string
  inscribeError :: "string option"

text \<open>\<open>ensureServicesRunning\<close> is taken by its outcome.\<close>

definition ensureServicesRunning :: "env \<Rightarrow> state \<Rightarrow> (string + bool) \<times> state" where
  "ensureServicesRunning e st = (servicesRunning e (trace st), emit EnsureServicesRunning st)"

text \<open>The body of the \<^verbatim>\<open>try\<close> in the progress callback of \<open>doInscribe\<close>.\<close>

definition doInscribe_try :: "env \<Rightarrow> string \<Rightarrow> state \<Rightarrow> (string + InscribeResult option) \<times> state" where
  "doInscribe_try e filePath st =
     (case ensureServicesRunning e st of
        (Inl err, st1) \<Rightarrow> (Inl err, st1)
      | (Inr running, st1) \<Rightarrow>
          if \<not> running then (Inr None, st1)
          else
            (case ensureWalletFunded e st1 of
               (funded, st2) \<Rightarrow>
                 if \<not> funded \<and> cfgNetwork e \<noteq> regtest then
                   (Inr None,
                    emit (ShowErrorMessage
                            ''Wallet does not have enough funds. Please fund your wallet first.'') st2)
                 else
                   (case getBlockCount e st2 of
                      (Inl err, st3) \<Rightarrow> (Inl err, st3)
                    | (Inr bitcoindBlocks, st3) \<Rightarrow>
                        (let synced = waitForOrdSync e bitcoindBlocks 30000 st3 in
                         if \<not> synced then (Inl ''Ord server failed to sync with bitcoind'', st3)
                         else
                           (case inscribeFile e filePath 1 st3 of
                              (Inl err, st4) \<Rightarrow> (Inl err, st4)
                            | (Inr resultId, st4) \<Rightarrow>
                                (let st5 = emit (AddInscription resultId (pathBasename e filePath)) st4;
                                     st6 =
                                       (if cfgNetwork e = regtest then
                                          (case getOrdReceiveAddress e st5 of
                                             (Inl err, s) \<Rightarrow> s
                                           | (Inr address, s) \<Rightarrow>
                                               snd (generateToAddress e (Num 1) address s))
                                        else st5)
                                 in (Inr (Some \<lparr>inscriptionId = resultId,
                                               localUrl = ''http://127.0.0.1:'' @
                                                 showInt (cfgOrdServerPort e) @
                                                 ''/inscription/'' @ resultId,
                                               inscribeError = None\<rparr>),
                                     st6)))))))"

text \<open>\<open>doInscribe\<close> up to the message shown after the progress notification; what the
  user does with the buttons of that message is not followed.\<close>

definition doInscribe :: "env \<Rightarrow> string \<Rightarrow> state \<Rightarrow> state" where
  "doInscribe e filePath st0 =
     (let st = (if cfgNetwork e = mainnet then
                  emit (ShowWarningMessage
                          ''You are about to inscribe on MAINNET. This will cost real Bitcoin!'') st0
                else st0)
      in if cfgNetwork e = mainnet \<and> warningChoice e (trace st0) \<noteq> Some ''Continue'' then st
         else
           (case (case doInscribe_try e filePath st of
                    (Inl err, st1) \<Rightarrow>
                      (Some \<lparr>inscriptionId = [], localUrl = [], inscribeError = Some err\<rparr>, st1)
                  | (Inr res, st1) \<Rightarrow> (res, st1)) of
              (None, st1) \<Rightarrow> st1
            | (Some inscribeResult, st1) \<Rightarrow>
                (case inscribeError inscribeResult of
                   Some err \<Rightarrow> emit (ShowErrorWithSuggestion ''Inscription failed'' err) st1
                 | None \<Rightarrow>
                     if inscriptionId inscribeResult \<noteq> [] then
                       emit (ShowInformationMessage
                               (''Inscription created!'' @ [CHR 0x0A] @ inscriptionId inscribeResult))
                         (emit RefreshWalletTree (emit RefreshInscriptionsTree st1))
                     else st1)))"


section \<open>Observations on traces and test scenarios\<close>

fun isClearEvent :: "event \<Rightarrow> bool" where
  "isClearEvent (ClearOrdIndex nw) = True"
| "isClearEvent (ClearOrdWallet nw) = True"
| "isClearEvent ev = False"

fun isStartCall :: "event \<Rightarrow> bool" where
  "isStartCall (StartOrdServerCalled retry) = True"
| "isStartCall ev = False"

fun isSpawn :: "event \<Rightarrow> bool" where
  "isSpawn (Spawn binary args) = True"
| "isSpawn ev = False"

fun isRpcCall :: "event \<Rightarrow> bool" where
  "isRpcCall (RpcCall method params wallet) = True"
| "isRpcCall ev = False"

fun isGenerate :: "event \<Rightarrow> bool" where
  "isGenerate (RpcCall method params wallet) = (method = ''generatetoaddress'')"
| "isGenerate ev = False"

fun isInscribe :: "event \<Rightarrow> bool" where
  "isInscribe (InscribeFile filePath feeRate) = True"
| "isInscribe ev = False"

text \<open>The events \<open>createOrdWallet\<close> can produce.\<close>

fun isWalletCreateEvent :: "event \<Rightarrow> bool" where
  "isWalletCreateEvent (Exec binary args) = True"
| "isWalletCreateEvent (ShowInformationMessage m) = True"
| "isWalletCreateEvent (ClearOrdIndex nw) = True"
| "isWalletCreateEvent (ClearOrdWallet nw) = True"
| "isWalletCreateEvent ev = False"

definition initState :: state where
  "initState = \<lparr>trace = [], ordAlive = False, bitcoindAlive = False\<rparr>"

text \<open>A regtest setup on Linux in which every call succeeds: the services answer at once,
  the wallet is empty, the node is at height 101 and the indexer has caught up.\<close>

definition baseEnv :: env where
  "baseEnv =
     \<lparr>cfgNetwork = regtest,
      cfgBitcoindRpcPort = 18443,
      cfgOrdServerPort = 9001,
      getPlatform = linux,
      getOrdPath = ''/bin/ord'',
      getBitcoindPath = ''/bin/bitcoind'',
      getOrdDataDirectory = ''/home/u/.ord'',
      getBitcoinDataDirectory = ''/home/u/.bitcoin'',
      getCookieFilePath = ''/home/u/.bitcoin/regtest/.cookie'',
      getCurrentWallet = ''ord'',
      pathBasename = (\<lambda>p. p),
      existsSync = (\<lambda>tr p. True),
      ordPolls = (\<lambda>tr i. \<lparr>stderrChunks = [], blockcountProbe = Response 200 ''0'',
                            processAlive = True\<rparr>),
      execOrd = (\<lambda>tr args. \<lparr>execError = None, stdout = [], stderr = []\<rparr>),
      netstatListening = (\<lambda>tr port. \<lparr>execError = Some ''exit 1'', stdout = [], stderr = []\<rparr>),
      bitcoindPolls = (\<lambda>tr i. (True, True)),
      rpcGetBlockchainInfo = (\<lambda>tr. Inr ()),
      rpcListWallets = (\<lambda>tr. Inr [''mining'']),
      rpcCreateWallet = (\<lambda>tr name. Inr ()),
      rpcLoadWallet = (\<lambda>tr name. Inr ()),
      rpcGetNewAddress = (\<lambda>tr wallet. Inr ''bcrt1qmining''),
      rpcGenerateToAddress = (\<lambda>tr n address. Inr []),
      rpcGetBlockCount = (\<lambda>tr. Inr (Num 101)),
      ordReceiveAddress = (\<lambda>tr. Inr ''bcrt1qord''),
      ordBalance = (\<lambda>tr. Inr \<lparr>cardinal = Num 0, ordinal = Num 0, total = Num 0\<rparr>),
      ordInscribe = (\<lambda>tr filePath. Inr ''abci0''),
      servicesRunning = (\<lambda>tr. Inr True),
      showInputBox = (\<lambda>tr. Some ''1''),
      warningChoice = (\<lambda>tr. None),
      syncPolls = (\<lambda>tr i. (Response 200 ''101'', 0))\<rparr>"

text \<open>An indexer that always writes a version-mismatch signature to stderr and is dead,
  never ready, at the first pass of the readiness loop.\<close>

definition mismatchEnv :: env where
  "mismatchEnv =
     baseEnv\<lparr>ordPolls := (\<lambda>tr i. \<lparr>stderrChunks = [''error: failed to open index''],
                                   blockcountProbe = RequestError ''ECONNREFUSED'',
                                   processAlive = False\<rparr>)\<rparr>"

text \<open>Wallet creation exits non-zero: once because the wallet is there already, once
  because the indexer is unreachable.\<close>

definition walletExistsEnv :: env where
  "walletExistsEnv =
     baseEnv\<lparr>execOrd := (\<lambda>tr args. \<lparr>execError = Some ''Command failed'', stdout = [],
                                      stderr = ''error: wallet `ord` already exists''\<rparr>)\<rparr>"

definition walletFailsEnv :: env where
  "walletFailsEnv =
     baseEnv\<lparr>execOrd := (\<lambda>tr args. \<lparr>execError = Some ''Command failed'', stdout = [],
                                     stderr = ''error: Connection refused''\<rparr>)\<rparr>"

text \<open>Both services running; and the same setup on mainnet.\<close>

definition runningState :: state where
  "runningState = \<lparr>trace = [], ordAlive = True, bitcoindAlive = True\<rparr>"

definition mainnetEnv :: env where
  "mainnetEnv = baseEnv\<lparr>cfgNetwork := mainnet\<rparr>"

text \<open>\<open>portHasListener\<close> follows the words of the specification, "the RPC port already has
  a listener": the netstat pipeline finds a \<open>LISTENING\<close> line for the port.\<close>

definition portHasListener :: "env \<Rightarrow> event list \<Rightarrow> int \<Rightarrow> bool" where
  "portHasListener e tr port =
     (let r = netstatListening e tr port in execError r = None \<and> trim (stdout r) \<noteq> [])"

text \<open>A bitcoind started outside the extension listens on the RPC port and answers: on
  Linux, on Windows, and on Windows with a listener that does not answer.\<close>

definition linuxBusyEnv :: env where
  "linuxBusyEnv =
     baseEnv\<lparr>netstatListening :=
               (\<lambda>tr port. \<lparr>execError = None,
                            stdout = ''  TCP    127.0.0.1:18443    0.0.0.0:0    LISTENING    4242'',
                            stderr = []\<rparr>)\<rparr>"

definition windowsBusyEnv :: env where
  "windowsBusyEnv = linuxBusyEnv\<lparr>getPlatform := windows\<rparr>"

definition windowsDeafEnv :: env where
  "windowsDeafEnv = windowsBusyEnv\<lparr>rpcGetBlockchainInfo := (\<lambda>tr. Inl ''connect ECONNREFUSED'')\<rparr>"

text \<open>An indexer that stays one block behind the node (height 101) for ever.\<close>

definition laggingEnv :: env where
  "laggingEnv = baseEnv\<lparr>syncPolls := (\<lambda>tr i. (Response 200 ''100'', 0))\<rparr>"

text \<open>An indexer that reaches the node's height at its fourth poll (after 1500 ms), and
  one that reaches it only at the poll that would come after 30000 ms.\<close>

definition slowEnv :: env where
  "slowEnv =
     baseEnv\<lparr>syncPolls :=
               (\<lambda>tr i. (if i < 3 then Response 200 ''100'' else Response 200 ''101'', 0))\<rparr>"

definition lateEnv :: env where
  "lateEnv =
     baseEnv\<lparr>syncPolls :=
               (\<lambda>tr i. (if i < 60 then Response 200 ''100'' else Response 200 ''101'', 0))\<rparr>"

text \<open>A node whose \<open>getblockcount\<close> fails.\<close>

definition nodeDownEnv :: env where
  "nodeDownEnv = baseEnv\<lparr>rpcGetBlockCount := (\<lambda>tr. Inl ''connect ECONNREFUSED'')\<rparr>"

section \<open>Strings and numbers: lemmas\<close>

lemma startsWith_iff: "startsWith s p \<longleftrightarrow> (\<exists>suf. s = p @ suf)"
  by (induction s p rule: startsWith.induct) auto

lemma includes_str_iff: "includes_str s p \<longleftrightarrow> (\<exists>pre suf. s = pre @ p @ suf)"
proof (induction s)
  case Nil
  show ?case by (cases p) auto
next
  case (Cons c cs)
  show ?case
  proof
    assume "includes_str (c # cs) p"
    then consider "startsWith (c # cs) p" | "includes_str cs p" by auto
    then show "\<exists>pre suf. c # cs = pre @ p @ suf"
    proof cases
      case 1
      then obtain suf where "c # cs = p @ suf" by (auto simp: startsWith_iff)
      then have "c # cs = [] @ p @ suf" by simp
      then show ?thesis by blast
    next
      case 2
      then obtain pre suf where "cs = pre @ p @ suf" using Cons.IH by blast
      then have "c # cs = (c # pre) @ p @ suf" by simp
      then show ?thesis by blast
    qed
  next
    assume "\<exists>pre suf. c # cs = pre @ p @ suf"
    then obtain pre suf where e: "c # cs = pre @ p @ suf" by blast
    show "includes_str (c # cs) p"
    proof (cases pre)
      case Nil
      with e have "startsWith (c # cs) p" by (auto simp: startsWith_iff)
      then show ?thesis by simp
    next
      case (Cons a pre')
      with e have "cs = pre' @ p @ suf" by simp
      then have "includes_str cs p" using Cons.IH by blast
      then show ?thesis by simp
    qed
  qed
qed

lemma includes_str_append: "includes_str (pre @ p @ suf) p"
  by (auto simp: includes_str_iff)

lemma includes_str_prefix: "includes_str (p @ suf) p"
  using includes_str_append [of "[]" p suf] by simp

lemma isDigit_digitChar: "d < 10 \<Longrightarrow> isDigit (digitChar d)"
  by (simp add: isDigit_def digitChar_def)

lemma digitVal_digitChar: "d < 10 \<Longrightarrow> digitVal (digitChar d) = int d"
  by (simp add: digitVal_def digitChar_def)

lemma not_ws_digit: "isDigit c \<Longrightarrow> \<not> isWhiteSpace c"
  by (auto simp: isDigit_def isWhiteSpace_def)

lemma digit_not_sign: "isDigit c \<Longrightarrow> c \<noteq> CHR ''+'' \<and> c \<noteq> CHR ''-''"
  by (auto simp: isDigit_def)

lemma showNat_digits: "\<forall>c \<in> set (showNat n). isDigit c"
proof (induction n rule: showNat.induct)
  case (1 n)
  show ?case
  proof (cases "n < 10")
    case True
    then show ?thesis by (subst showNat.simps) (simp add: isDigit_digitChar)
  next
    case False
    with 1 show ?thesis by (subst showNat.simps) (simp add: isDigit_digitChar)
  qed
qed

lemma showNat_nonempty: "showNat n \<noteq> []"
  by (subst showNat.simps) simp

lemma digitsValue_snoc: "digitsValue (ds @ [c]) = digitsValue ds * 10 + digitVal c"
  by (simp add: digitsValue_def)

lemma digitsValue_showNat: "digitsValue (showNat n) = int n"
proof (induction n rule: showNat.induct)
  case (1 n)
  show ?case
  proof (cases "n < 10")
    case True
    then show ?thesis
      by (subst showNat.simps) (simp add: digitsValue_def digitVal_digitChar)
  next
    case False
    with 1 have "digitsValue (showNat (n div 10)) = int (n div 10)" by simp
    with False show ?thesis
      by (subst showNat.simps) (simp add: digitsValue_snoc digitVal_digitChar zdiv_int zmod_int)
  qed
qed

lemma parseInt_digits:
  assumes "ds \<noteq> []" "\<forall>c \<in> set ds. isDigit c"
  shows "parseInt ds = Num (digitsValue ds)"
proof -
  from assms obtain c r where ds: "ds = c # r" by (cases ds) auto
  with assms have c: "isDigit c" by simp
  have dw: "dropWhile isWhiteSpace ds = ds" using ds c by (simp add: not_ws_digit)
  have tw: "takeWhile isDigit ds = ds" using assms(2) by (simp add: takeWhile_eq_all_conv)
  show ?thesis
    using dw tw ds digit_not_sign [OF c] assms(1) by (simp add: parseInt_def)
qed

lemma dropWhile_hd: "xs \<noteq> [] \<Longrightarrow> \<not> P (hd xs) \<Longrightarrow> dropWhile P xs = xs"
  by (cases xs) auto

lemma trim_id:
  assumes "s \<noteq> []" "\<not> isWhiteSpace (hd s)" "\<not> isWhiteSpace (last s)"
  shows "trim s = s"
proof -
  have a: "dropWhile isWhiteSpace s = s" using assms by (simp add: dropWhile_hd)
  have "rev s \<noteq> []" "hd (rev s) = last s" using assms by (simp_all add: hd_rev)
  then have b: "dropWhile isWhiteSpace (rev s) = rev s" using assms by (simp add: dropWhile_hd)
  show ?thesis by (simp add: trim_def a b)
qed

lemma trim_showNat: "trim (showNat n) = showNat n"
proof (rule trim_id)
  show "showNat n \<noteq> []" by (rule showNat_nonempty)
  have "hd (showNat n) \<in> set (showNat n)" "last (showNat n) \<in> set (showNat n)"
    using showNat_nonempty by simp_all
  then show "\<not> isWhiteSpace (hd (showNat n))" "\<not> isWhiteSpace (last (showNat n))"
    using showNat_digits not_ws_digit by blast+
qed

lemma parseInt_trim_showNat: "parseInt (trim (showNat n)) = Num (int n)"
  by (simp add: trim_showNat parseInt_digits showNat_nonempty showNat_digits digitsValue_showNat)

lemma parseInt_150: "parseInt (trim ''150'') = Num 150"
  by (simp add: parseInt_def trim_def isWhiteSpace_def isDigit_def digitsValue_def digitVal_def)

lemma parseInt_0: "parseInt (trim ''0'') = Num 0"
  by (simp add: parseInt_def trim_def isWhiteSpace_def isDigit_def digitsValue_def digitVal_def)

lemma showNat_404: "showNat 404 = ''404''"
  by code_simp

section \<open>The version-mismatch classifier\<close>

text \<open>
  Claim C2. \<open>isVersionMismatchError\<close> is true exactly for the strings that contain one of
  the four signatures \<open>Manual upgrade required\<close>, \<open>Expected file format version\<close>,
  \<open>failed to open index\<close>, \<open>failed to open wallet database\<close> as a substring; it is false
  for \<open>Connection refused\<close>, \<open>Bitcoin RPC error\<close> and \<open>Network timeout\<close>.
\<close>

theorem isVersionMismatchError_classifier:
  "(isVersionMismatchError s \<longleftrightarrow>
      (\<exists>pre suf. s = pre @ ''Manual upgrade required'' @ suf) \<or>
      (\<exists>pre suf. s = pre @ ''Expected file format version'' @ suf) \<or>
      (\<exists>pre suf. s = pre @ ''failed to open index'' @ suf) \<or>
      (\<exists>pre suf. s = pre @ ''failed to open wallet database'' @ suf)) \<and>
   \<not> isVersionMismatchError ''Connection refused'' \<and>
   \<not> isVersionMismatchError ''Bitcoin RPC error'' \<and>
   \<not> isVersionMismatchError ''Network timeout''"
proof -
  have a: "isVersionMismatchError s \<longleftrightarrow>
      (\<exists>pre suf. s = pre @ ''Manual upgrade required'' @ suf) \<or>
      (\<exists>pre suf. s = pre @ ''Expected file format version'' @ suf) \<or>
      (\<exists>pre suf. s = pre @ ''failed to open index'' @ suf) \<or>
      (\<exists>pre suf. s = pre @ ''failed to open wallet database'' @ suf)"
    by (simp only: isVersionMismatchError_def includes_str_iff)
  have b: "\<not> isVersionMismatchError ''Connection refused''"
    by code_simp
  have c: "\<not> isVersionMismatchError ''Bitcoin RPC error''"
    by code_simp
  have d: "\<not> isVersionMismatchError ''Network timeout''"
    by code_simp
  from a b c d show ?thesis by blast
qed

section \<open>Readiness and health of the indexer\<close>

text \<open>
  Claim C5. \<open>isOrdServerReady\<close> is true exactly when the request ended in a response with
  status 200 whose trimmed body \<open>parseInt\<close> reads as a number \<open>n \<ge> 0\<close>; so it is true for
  the decimal numeral of every natural number, and false for every other status, for a
  body read as \<open>NaN\<close>, for a request error and for a timeout. It is a total function into
  the booleans: it has no error outcome.
\<close>

theorem isOrdServerReady_iff:
  "(isOrdServerReady r \<longleftrightarrow>
      (\<exists>body n. r = Response 200 body \<and> parseInt (trim body) = Num n \<and> 0 \<le> n)) \<and>
   isOrdServerReady (Response 200 (showNat k)) \<and>
   (statusCode \<noteq> 200 \<longrightarrow> \<not> isOrdServerReady (Response statusCode body)) \<and>
   (parseInt (trim body) = NaN \<longrightarrow> \<not> isOrdServerReady (Response statusCode body)) \<and>
   \<not> isOrdServerReady (RequestError message) \<and>
   \<not> isOrdServerReady RequestTimeout"
proof -
  have a: "isOrdServerReady r \<longleftrightarrow>
      (\<exists>body n. r = Response 200 body \<and> parseInt (trim body) = Num n \<and> 0 \<le> n)"
  proof (cases r)
    case (Response st b)
    then show ?thesis by (cases "parseInt (trim b)") auto
  qed auto
  have b: "isOrdServerReady (Response 200 (showNat k))"
    by (simp add: parseInt_trim_showNat)
  show ?thesis using a b by simp
qed

theorem isOrdServerReady_iff_witness:
  "(503::nat) \<noteq> 200 \<and> parseInt (trim ''starting'') = NaN \<and>
   \<not> isOrdServerReady (Response 503 ''starting'') \<and>
   isOrdServerReady (Response 200 (showNat 7))"
proof -
  have n: "parseInt (trim ''starting'') = NaN"
    by (simp add: parseInt_def trim_def isWhiteSpace_def isDigit_def)
  show ?thesis
    using isOrdServerReady_iff [of "Response 503 ''starting''" 7 503 "''starting''" "[]"] n
    by simp
qed

text \<open>
  Claim C3. \<open>verifyOrdBitcoindConnection\<close>: status 200 with a body that \<open>parseInt\<close>
  reads as \<open>n \<ge> 0\<close> is healthy with a blockcount and no error, and for \<open>n\<close> up to \<open>2^53\<close>,
  where a double holds the integer exactly, the blockcount is \<open>n\<close> (so the numeral of \<open>k\<close>
  gives \<open>k\<close> up to \<open>2^53\<close>, \<open>150\<close> gives 150 and \<open>0\<close> gives 0); status 200 with a body read as
  \<open>NaN\<close> or as a negative number is unhealthy with an error containing
  \<open>Invalid blockcount\<close>; status 500 is unhealthy with an error containing \<open>auth failure\<close>;
  every other status is unhealthy with an error containing \<open>HTTP\<close> and the status, so 404
  gives \<open>HTTP 404\<close>.
\<close>

theorem verifyOrdBitcoindConnection_classifies:
  "(parseInt (trim body) = Num n \<and> 0 \<le> n \<longrightarrow>
      healthy (verifyOrdBitcoindConnection (Response 200 body)) \<and>
      blockcount (verifyOrdBitcoindConnection (Response 200 body)) \<noteq> None \<and>
      error (verifyOrdBitcoindConnection (Response 200 body)) = None) \<and>
   (parseInt (trim body) = Num n \<and> 0 \<le> n \<and> n \<le> 2 ^ 53 \<longrightarrow>
      verifyOrdBitcoindConnection (Response 200 body) =
        \<lparr>healthy = True, blockcount = Some (Num n), error = None\<rparr>) \<and>
   healthy (verifyOrdBitcoindConnection (Response 200 (showNat k))) \<and>
   (k \<le> 2 ^ 53 \<longrightarrow>
      verifyOrdBitcoindConnection (Response 200 (showNat k)) =
        \<lparr>healthy = True, blockcount = Some (Num (int k)), error = None\<rparr>) \<and>
   verifyOrdBitcoindConnection (Response 200 ''150'') =
     \<lparr>healthy = True, blockcount = Some (Num 150), error = None\<rparr> \<and>
   verifyOrdBitcoindConnection (Response 200 ''0'') =
     \<lparr>healthy = True, blockcount = Some (Num 0), error = None\<rparr> \<and>
   (parseInt (trim body) = NaN \<or> (\<exists>m < 0. parseInt (trim body) = Num m) \<longrightarrow>
      \<not> healthy (verifyOrdBitcoindConnection (Response 200 body)) \<and>
      blockcount (verifyOrdBitcoindConnection (Response 200 body)) = None \<and>
      (\<exists>msg. error (verifyOrdBitcoindConnection (Response 200 body)) = Some msg \<and>
             includes_str msg ''Invalid blockcount'')) \<and>
   (\<not> healthy (verifyOrdBitcoindConnection (Response 500 body)) \<and>
    blockcount (verifyOrdBitcoindConnection (Response 500 body)) = None \<and>
    (\<exists>msg. error (verifyOrdBitcoindConnection (Response 500 body)) = Some msg \<and>
           includes_str msg ''auth failure'')) \<and>
   (statusCode \<noteq> 200 \<and> statusCode \<noteq> 500 \<longrightarrow>
      \<not> healthy (verifyOrdBitcoindConnection (Response statusCode body)) \<and>
      blockcount (verifyOrdBitcoindConnection (Response statusCode body)) = None \<and>
      (\<exists>msg. error (verifyOrdBitcoindConnection (Response statusCode body)) = Some msg \<and>
             includes_str msg (''HTTP '' @ showNat statusCode))) \<and>
   (\<exists>msg. error (verifyOrdBitcoindConnection (Response 404 body)) = Some msg \<and>
          includes_str msg ''HTTP 404'')"
proof -
  have a0: "parseInt (trim body) = Num n \<and> 0 \<le> n \<longrightarrow>
      healthy (verifyOrdBitcoindConnection (Response 200 body)) \<and>
      blockcount (verifyOrdBitcoindConnection (Response 200 body)) \<noteq> None \<and>
      error (verifyOrdBitcoindConnection (Response 200 body)) = None"
    by simp
  have a: "parseInt (trim body) = Num n \<and> 0 \<le> n \<and> n \<le> 2 ^ 53 \<longrightarrow>
      verifyOrdBitcoindConnection (Response 200 body) =
        \<lparr>healthy = True, blockcount = Some (Num n), error = None\<rparr>"
    by simp
  have b0: "healthy (verifyOrdBitcoindConnection (Response 200 (showNat k)))"
    by (simp add: parseInt_trim_showNat)
  have b: "k \<le> 2 ^ 53 \<longrightarrow>
      verifyOrdBitcoindConnection (Response 200 (showNat k)) =
        \<lparr>healthy = True, blockcount = Some (Num (int k)), error = None\<rparr>"
    by (simp add: parseInt_trim_showNat)
  have c: "verifyOrdBitcoindConnection (Response 200 ''150'') =
     \<lparr>healthy = True, blockcount = Some (Num 150), error = None\<rparr>"
    by (simp add: parseInt_150)
  have d: "verifyOrdBitcoindConnection (Response 200 ''0'') =
     \<lparr>healthy = True, blockcount = Some (Num 0), error = None\<rparr>"
    by (simp add: parseInt_0)
  have inv: "includes_str (''Invalid blockcount response: '' @ body) ''Invalid blockcount''"
    using includes_str_append [of "[]" "''Invalid blockcount''" "'' response: '' @ body"]
    by simp
  have e: "parseInt (trim body) = NaN \<or> (\<exists>m < 0. parseInt (trim body) = Num m) \<longrightarrow>
      \<not> healthy (verifyOrdBitcoindConnection (Response 200 body)) \<and>
      blockcount (verifyOrdBitcoindConnection (Response 200 body)) = None \<and>
      (\<exists>msg. error (verifyOrdBitcoindConnection (Response 200 body)) = Some msg \<and>
             includes_str msg ''Invalid blockcount'')"
    using inv by auto
  have auth: "includes_str (''Server error (likely auth failure): '' @ body) ''auth failure''"
    using includes_str_append [of "''Server error (likely ''" "''auth failure''" "''): '' @ body"]
    by simp
  have f: "\<not> healthy (verifyOrdBitcoindConnection (Response 500 body)) \<and>
    blockcount (verifyOrdBitcoindConnection (Response 500 body)) = None \<and>
    (\<exists>msg. error (verifyOrdBitcoindConnection (Response 500 body)) = Some msg \<and>
           includes_str msg ''auth failure'')"
    using auth by simp
  have http: "includes_str (''HTTP '' @ showNat sc @ '': '' @ body) (''HTTP '' @ showNat sc)" for sc
    using includes_str_append [of "[]" "''HTTP '' @ showNat sc" "'': '' @ body"]
    by simp
  have g: "statusCode \<noteq> 200 \<and> statusCode \<noteq> 500 \<longrightarrow>
      \<not> healthy (verifyOrdBitcoindConnection (Response statusCode body)) \<and>
      blockcount (verifyOrdBitcoindConnection (Response statusCode body)) = None \<and>
      (\<exists>msg. error (verifyOrdBitcoindConnection (Response statusCode body)) = Some msg \<and>
             includes_str msg (''HTTP '' @ showNat statusCode))"
    using http [of statusCode] by simp
  have h: "\<exists>msg. error (verifyOrdBitcoindConnection (Response 404 body)) = Some msg \<and>
          includes_str msg ''HTTP 404''"
    using http [of 404] by (simp add: showNat_404)
  from a0 a b0 b c d e f g h show ?thesis by blast
qed

theorem verifyOrdBitcoindConnection_classifies_witness:
  "parseInt (trim '' 42 '') = Num 42 \<and> (42::int) \<le> 2 ^ 53 \<and>
   verifyOrdBitcoindConnection (Response 200 '' 42 '') =
     \<lparr>healthy = True, blockcount = Some (Num 42), error = None\<rparr> \<and>
   (7::nat) \<le> 2 ^ 53 \<and>
   verifyOrdBitcoindConnection (Response 200 (showNat 7)) =
     \<lparr>healthy = True, blockcount = Some (Num 7), error = None\<rparr> \<and>
   parseInt (trim ''not a number'') = NaN \<and>
   \<not> healthy (verifyOrdBitcoindConnection (Response 200 ''not a number'')) \<and>
   \<not> healthy (verifyOrdBitcoindConnection (Response 404 ''Not Found''))"
proof -
  have p: "parseInt (trim '' 42 '') = Num 42"
    by (simp add: parseInt_def trim_def isWhiteSpace_def isDigit_def digitsValue_def digitVal_def)
  have q: "parseInt (trim ''not a number'') = NaN"
    by (simp add: parseInt_def trim_def isWhiteSpace_def isDigit_def)
  have r: "(404::nat) \<noteq> 200 \<and> (404::nat) \<noteq> 500"
    by simp
  have s: "(42::int) \<le> 2 ^ 53" "(7::nat) \<le> 2 ^ 53"
    by simp_all
  have t1: "verifyOrdBitcoindConnection (Response 200 '' 42 '') =
     \<lparr>healthy = True, blockcount = Some (Num 42), error = None\<rparr>"
    using verifyOrdBitcoindConnection_classifies
            [where body = "'' 42 ''" and n = 42 and k = 7 and statusCode = 404] p s
    by simp
  have t2: "verifyOrdBitcoindConnection (Response 200 (showNat 7)) =
     \<lparr>healthy = True, blockcount = Some (Num 7), error = None\<rparr>"
    using verifyOrdBitcoindConnection_classifies
            [where body = "'' 42 ''" and n = 42 and k = 7 and statusCode = 404] s
    by simp
  have t3: "\<not> healthy (verifyOrdBitcoindConnection (Response 200 ''not a number''))"
    using verifyOrdBitcoindConnection_classifies
            [where body = "''not a number''" and n = 0 and k = 7 and statusCode = 404] q
    by simp
  have t4: "\<not> healthy (verifyOrdBitcoindConnection (Response 404 ''Not Found''))"
    using verifyOrdBitcoindConnection_classifies
            [where body = "''Not Found''" and n = 0 and k = 7 and statusCode = 404] r
    by simp
  from p q s t1 t2 t3 t4 show ?thesis by blast
qed

section \<open>The RPC port\<close>

text \<open>
  Claim C10. \<open>getRpcPort\<close> uses the per-network defaults (mainnet 8332, testnet 18332,
  signet 38332, regtest 18443) only when the configured \<open>bitcoindRpcPort\<close> is 18443; every
  other configured value is returned unchanged on every network.
\<close>

theorem getRpcPort_configured_overrides:
  "(configured \<noteq> 18443 \<longrightarrow> getRpcPort configured nw = configured) \<and>
   getRpcPort 18443 mainnet = 8332 \<and>
   getRpcPort 18443 testnet = 18332 \<and>
   getRpcPort 18443 signet = 38332 \<and>
   getRpcPort 18443 regtest = 18443"
  by (simp add: getRpcPort_def)

theorem getRpcPort_configured_overrides_witness:
  "(8332::int) \<noteq> 18443 \<and> getRpcPort 8332 testnet = 8332 \<and> getRpcPort 18443 testnet = 18332"
  using getRpcPort_configured_overrides [of 8332 testnet] by simp

section \<open>One-shot recovery of the indexer start\<close>

lemma startOrdServer_no_retry:
  "\<exists>evs. trace (snd (startOrdServer e False s)) = trace s @ StartOrdServerCalled False # evs \<and>
         (\<forall>ev \<in> set evs. \<not> isClearEvent ev \<and> \<not> isStartCall ev)"
  by (subst startOrdServer.simps)
     (auto simp: Let_def emit_def killProcessOnPort_def isOrdRunning_def split: ready_outcome.splits)

lemma waitOrdReady_dies:
  assumes "k < maxAttemptsOrd"
    and "i \<le> k"
    and "\<forall>j. i \<le> j \<and> j \<le> k \<longrightarrow> \<not> isOrdServerReady (blockcountProbe (polls j))"
    and "\<forall>j. i \<le> j \<and> j < k \<longrightarrow> processAlive (polls j)"
    and "\<not> processAlive (polls k)"
    and "ive \<or> (\<exists>j. i \<le> j \<and> j \<le> k \<and> list_ex chunkHasVersionError (stderrChunks (polls j)))"
  shows "\<exists>err. waitOrdReady polls i ive so = Died True err"
  using assms
proof (induction "k - i" arbitrary: i ive so)
  case 0
  then have ik: "i = k" by simp
  with 0 show ?case
    by (subst waitOrdReady.simps) (auto simp: Let_def)
next
  case (Suc d)
  then have lt: "i < k" by simp
  let ?p = "polls i"
  let ?ive = "ive \<or> list_ex chunkHasVersionError (stderrChunks ?p)"
  have nr: "\<not> isOrdServerReady (blockcountProbe ?p)" using Suc.prems lt by simp
  have al: "processAlive ?p" using Suc.prems lt by simp
  have step: "waitOrdReady polls i ive so =
      waitOrdReady polls (Suc i) ?ive (so @ concat (stderrChunks ?p))"
    using nr al lt Suc.prems(1) by (subst waitOrdReady.simps) (simp add: Let_def)
  have flag: "?ive \<or> (\<exists>j. Suc i \<le> j \<and> j \<le> k \<and> list_ex chunkHasVersionError (stderrChunks (polls j)))"
  proof -
    from Suc.prems(6) consider "ive"
      | j where "i \<le> j" "j \<le> k" "list_ex chunkHasVersionError (stderrChunks (polls j))"
      by blast
    then show ?thesis
    proof cases
      case 1 then show ?thesis by simp
    next
      case 2
      then show ?thesis by (cases "j = i") auto
    qed
  qed
  have "\<exists>err. waitOrdReady polls (Suc i) ?ive (so @ concat (stderrChunks ?p)) = Died True err"
  proof (rule Suc.hyps(1))
    show "d = k - Suc i" using Suc.hyps(2) by simp
    show "k < maxAttemptsOrd" by (rule Suc.prems(1))
    show "Suc i \<le> k" using lt by simp
    show "\<forall>j. Suc i \<le> j \<and> j \<le> k \<longrightarrow> \<not> isOrdServerReady (blockcountProbe (polls j))"
      using Suc.prems(3) by simp
    show "\<forall>j. Suc i \<le> j \<and> j < k \<longrightarrow> processAlive (polls j)"
      using Suc.prems(4) by simp
    show "\<not> processAlive (polls k)" by (rule Suc.prems(5))
    show "?ive \<or> (\<exists>j. Suc i \<le> j \<and> j \<le> k \<and> list_ex chunkHasVersionError (stderrChunks (polls j)))"
      by (rule flag)
  qed
  with step show ?case by simp
qed

lemma waitOrdReady_never_ready:
  "\<forall>j. \<not> isOrdServerReady (blockcountProbe (polls j)) \<Longrightarrow>
   waitOrdReady polls i ive so \<noteq> Ready a"
proof (induction polls i ive so rule: waitOrdReady.induct)
  case (1 polls i ive so)
  show ?case
  proof (cases "i < maxAttemptsOrd")
    case False
    then show ?thesis by (subst waitOrdReady.simps) simp
  next
    case True
    show ?thesis
    proof (cases "processAlive (polls i)")
      case False
      with True 1 show ?thesis by (subst waitOrdReady.simps) (simp add: Let_def)
    next
      case alive: True
      have nr: "\<not> isOrdServerReady (blockcountProbe (polls i))" using "1.prems" by simp
      have "waitOrdReady polls (Suc i)
              (ive \<or> list_ex chunkHasVersionError (stderrChunks (polls i)))
              (so @ concat (stderrChunks (polls i))) \<noteq> Ready a"
        using "1.IH" [OF True refl refl refl nr] alive "1.prems" by simp
      with True alive nr show ?thesis by (subst waitOrdReady.simps) (simp add: Let_def)
    qed
  qed
qed

lemma startOrdServer_no_retry_fails:
  assumes "\<not> ordAlive s"
    and "\<forall>tr j. \<not> isOrdServerReady (blockcountProbe (ordPolls e tr j))"
  shows "isl (fst (startOrdServer e False s))"
  using assms waitOrdReady_never_ready [of "ordPolls e tr" for tr]
  by (subst startOrdServer.simps)
     (auto simp: Let_def emit_def killProcessOnPort_def isOrdRunning_def split: ready_outcome.splits)

lemma mismatch_chunk: "list_ex chunkHasVersionError [''error: failed to open index'']"
  by code_simp

text \<open>
  Claim C1. Take a call of \<open>startOrdServer\<close> with the retry flag set, the indexer not
  running, the binary and the cookie file present. If the spawned process is found dead
  in some pass \<open>k\<close> of the readiness loop, no pass up to \<open>k\<close> having found the server ready,
  and some stderr chunk delivered up to then contains a version-mismatch signature, then
  the call equals one call of \<open>startOrdServer\<close> with the retry flag cleared, made after
  \<open>clearAllOrdData\<close>; over the whole run the data is wiped exactly once and
  \<open>startOrdServer\<close> is entered exactly twice, with flags \<open>True\<close> then \<open>False\<close>, whatever
  the second attempt meets. If moreover the indexer never becomes ready, the call ends in
  an error. \<open>startOrdServer\<close> is a total function: the recursion ends.
\<close>

theorem startOrdServer_recovers_once:
  fixes e :: env and st :: state
  defines "st1 \<equiv> emit (StartOrdServerCalled True) st"
  defines "st2 \<equiv> emit (MkdirSync (getOrdDataDirectory e)) (killProcessOnPort e (cfgOrdServerPort e) st1)"
  defines "st3 \<equiv> emit (Spawn (getOrdPath e) (ordServerArgs e)) st2"
  defines "st4 \<equiv> clearAllOrdData (cfgNetwork e)
                   (emit (ShowInformationMessage
                      ''Ord database is outdated. Clearing and rebuilding (this may take a moment)...'')
                      (st3\<lparr>ordAlive := False\<rparr>))"
  assumes notRunning: "\<not> ordAlive st"
    and ordFound: "existsSync e (trace st1) (getOrdPath e)"
    and cookieFound: "existsSync e (trace st2) (getCookieFilePath e)"
    and k: "k < maxAttemptsOrd"
    and notReady: "\<forall>j \<le> k. \<not> isOrdServerReady (blockcountProbe (ordPolls e (trace st3) j))"
    and aliveBefore: "\<forall>j < k. processAlive (ordPolls e (trace st3) j)"
    and deadAt: "\<not> processAlive (ordPolls e (trace st3) k)"
    and seen: "\<exists>j \<le> k. list_ex chunkHasVersionError (stderrChunks (ordPolls e (trace st3) j))"
  shows "startOrdServer e True st = startOrdServer e False st4 \<and>
         filter isClearEvent (trace (snd (startOrdServer e True st))) =
           filter isClearEvent (trace st) @ [ClearOrdIndex (cfgNetwork e), ClearOrdWallet (cfgNetwork e)] \<and>
         filter isStartCall (trace (snd (startOrdServer e True st))) =
           filter isStartCall (trace st) @ [StartOrdServerCalled True, StartOrdServerCalled False] \<and>
         ((\<forall>tr j. \<not> isOrdServerReady (blockcountProbe (ordPolls e tr j))) \<longrightarrow>
            isl (fst (startOrdServer e True st)))"
proof -
  have "\<exists>err. waitOrdReady (ordPolls e (trace st3)) 0 False [] = Died True err"
  proof (rule waitOrdReady_dies [OF k])
    show "0 \<le> k" by simp
    show "\<forall>j. 0 \<le> j \<and> j \<le> k \<longrightarrow> \<not> isOrdServerReady (blockcountProbe (ordPolls e (trace st3) j))"
      using notReady by simp
    show "\<forall>j. 0 \<le> j \<and> j < k \<longrightarrow> processAlive (ordPolls e (trace st3) j)"
      using aliveBefore by simp
    show "\<not> processAlive (ordPolls e (trace st3) k)" by (rule deadAt)
    show "False \<or> (\<exists>j. 0 \<le> j \<and> j \<le> k \<and>
            list_ex chunkHasVersionError (stderrChunks (ordPolls e (trace st3) j)))"
      using seen by auto
  qed
  then obtain err where died: "waitOrdReady (ordPolls e (trace st3)) 0 False [] = Died True err"
    by blast
  have nr1: "\<not> isOrdRunning st1"
    using notRunning by (simp add: st1_def isOrdRunning_def emit_def)
  have step: "startOrdServer e True st = startOrdServer e False st4"
    apply (subst startOrdServer.simps)
    apply (fold st1_def)
    apply (simp only: Let_def nr1 ordFound if_False if_True not_True_eq_False simp_thms)
    apply (fold st2_def)
    apply (simp only: cookieFound if_False if_True not_True_eq_False simp_thms)
    apply (fold st3_def)
    apply (simp only: died ready_outcome.case simp_thms if_True)
    apply (fold st4_def)
    apply (rule refl)
    done
  have tr4: "trace st4 = trace st3 @
      [ShowInformationMessage
         ''Ord database is outdated. Clearing and rebuilding (this may take a moment)...'',
       ClearOrdIndex (cfgNetwork e), ClearOrdWallet (cfgNetwork e)]"
    by (simp add: st4_def clearAllOrdData_def emit_def)
  have tr3: "filter isClearEvent (trace st3) = filter isClearEvent (trace st) \<and>
             filter isStartCall (trace st3) = filter isStartCall (trace st) @ [StartOrdServerCalled True]"
    by (simp add: st3_def st2_def st1_def emit_def killProcessOnPort_def)
  obtain evs where evs:
    "trace (snd (startOrdServer e False st4)) = trace st4 @ StartOrdServerCalled False # evs"
    "\<forall>ev \<in> set evs. \<not> isClearEvent ev \<and> \<not> isStartCall ev"
    using startOrdServer_no_retry [of e st4] by blast
  have f1: "filter isClearEvent evs = []" "filter isStartCall evs = []"
    using evs(2) by (simp_all add: filter_empty_conv)
  have clears: "filter isClearEvent (trace (snd (startOrdServer e True st))) =
      filter isClearEvent (trace st) @ [ClearOrdIndex (cfgNetwork e), ClearOrdWallet (cfgNetwork e)]"
    using tr3 f1 by (simp add: step evs(1) tr4)
  have calls: "filter isStartCall (trace (snd (startOrdServer e True st))) =
      filter isStartCall (trace st) @ [StartOrdServerCalled True, StartOrdServerCalled False]"
    using tr3 f1 by (simp add: step evs(1) tr4)
  have dead4: "\<not> ordAlive st4"
    by (simp add: st4_def clearAllOrdData_def emit_def)
  have fails: "(\<forall>tr j. \<not> isOrdServerReady (blockcountProbe (ordPolls e tr j))) \<longrightarrow>
      isl (fst (startOrdServer e True st))"
    using startOrdServer_no_retry_fails [OF dead4] by (simp add: step)
  from step clears calls fails show ?thesis by blast
qed

theorem startOrdServer_recovers_once_witness:
  "\<not> ordAlive initState \<and>
   (\<forall>tr j. \<not> isOrdServerReady (blockcountProbe (ordPolls mismatchEnv tr j))) \<and>
   filter isClearEvent (trace (snd (startOrdServer mismatchEnv True initState))) =
     [ClearOrdIndex regtest, ClearOrdWallet regtest] \<and>
   filter isStartCall (trace (snd (startOrdServer mismatchEnv True initState))) =
     [StartOrdServerCalled True, StartOrdServerCalled False] \<and>
   isl (fst (startOrdServer mismatchEnv True initState))"
proof -
  have polls: "ordPolls mismatchEnv tr j =
      \<lparr>stderrChunks = [''error: failed to open index''],
       blockcountProbe = RequestError ''ECONNREFUSED'', processAlive = False\<rparr>" for tr j
    by (simp add: mismatchEnv_def)
  have files: "existsSync mismatchEnv tr p" for tr p
    by (simp add: mismatchEnv_def baseEnv_def)
  have net: "cfgNetwork mismatchEnv = regtest"
    by (simp add: mismatchEnv_def baseEnv_def)
  have h1: "\<not> ordAlive initState"
    by (simp add: initState_def)
  have h4: "0 < maxAttemptsOrd"
    by (simp add: maxAttemptsOrd_def)
  have never: "\<forall>tr j. \<not> isOrdServerReady (blockcountProbe (ordPolls mismatchEnv tr j))"
    by (simp add: polls)
  have nr: "\<forall>j \<le> 0. \<not> isOrdServerReady (blockcountProbe (ordPolls mismatchEnv tr j))" for tr
    by (simp add: polls)
  have al: "\<forall>j < 0. processAlive (ordPolls mismatchEnv tr j)" for tr
    by simp
  have dead: "\<not> processAlive (ordPolls mismatchEnv tr 0)" for tr
    by (simp add: polls)
  have seen: "\<exists>j \<le> 0. list_ex chunkHasVersionError (stderrChunks (ordPolls mismatchEnv tr j))" for tr
    using mismatch_chunk by (simp add: polls)
  note t = startOrdServer_recovers_once
             [of initState mismatchEnv 0, OF h1 files files h4 nr al dead seen, THEN conjunct2]
  have tr0: "trace initState = []"
    by (simp add: initState_def)
  show ?thesis using t h1 never by (simp add: net tr0)
qed

section \<open>Creating a wallet\<close>

lemma createOrdWallet_events:
  "\<exists>evs. trace (snd (createOrdWallet e w retry st)) = trace st @ evs \<and>
         (\<forall>ev \<in> set evs. isWalletCreateEvent ev)"
proof (induction e w retry st rule: createOrdWallet.induct)
  case (1 e walletName retryAfterClear st)
  let ?wallet = "walletOrCurrent e walletName"
  let ?args = "ordWalletArgs e ?wallet [''create'']"
  let ?r = "execOrd e (trace st) ?args"
  let ?st1 = "emit (Exec (getOrdPath e) ?args) st"
  let ?st2 = "clearAllOrdData (cfgNetwork e)
                (emit (ShowInformationMessage
                   ''Ord wallet database is outdated. Clearing and recreating...'') ?st1)"
  show ?case
  proof (cases "\<exists>message. execError ?r = Some message \<and>
                  \<not> (includes_str (stderr ?r) ''already exists'' \<or> includes_str (stdout ?r) ''already exists'') \<and>
                  isVersionMismatchError (stderr ?r) \<and> retryAfterClear")
    case True
    then obtain message where m: "execError ?r = Some message"
      and ae: "\<not> (includes_str (stderr ?r) ''already exists'' \<or> includes_str (stdout ?r) ''already exists'')"
      and mm: "isVersionMismatchError (stderr ?r) \<and> retryAfterClear"
      by blast
    have eq: "createOrdWallet e walletName retryAfterClear st = createOrdWallet e (Some ?wallet) False ?st2"
      using m ae mm by (subst createOrdWallet.simps) (simp add: Let_def)
    from "1.IH" [OF refl refl refl refl m ae mm]
    obtain evs where evs: "trace (snd (createOrdWallet e (Some ?wallet) False ?st2)) = trace ?st2 @ evs"
      "\<forall>ev \<in> set evs. isWalletCreateEvent ev"
      by blast
    have "trace ?st2 = trace st @ [Exec (getOrdPath e) ?args,
        ShowInformationMessage ''Ord wallet database is outdated. Clearing and recreating...'',
        ClearOrdIndex (cfgNetwork e), ClearOrdWallet (cfgNetwork e)]"
      by (simp add: clearAllOrdData_def emit_def)
    with evs eq show ?thesis by simp
  next
    case False
    then show ?thesis
      by (subst createOrdWallet.simps) (auto simp: Let_def emit_def split: option.splits)
  qed
qed

lemma createOrdWallet_no_rpc:
  "filter isRpcCall (trace (snd (createOrdWallet e w retry st))) = filter isRpcCall (trace st)"
proof -
  obtain evs where evs: "trace (snd (createOrdWallet e w retry st)) = trace st @ evs"
    "\<forall>ev \<in> set evs. isWalletCreateEvent ev"
    using createOrdWallet_events by blast
  have "\<And>ev. isWalletCreateEvent ev \<Longrightarrow> \<not> isRpcCall ev"
    by (case_tac ev) auto
  with evs(2) have "filter isRpcCall evs = []" by (auto simp: filter_empty_conv)
  with evs(1) show ?thesis by simp
qed

lemma includes_str_empty: "includes_str s []"
  by (cases s) simp_all

text \<open>
  Claim C9. When the \<open>create\<close> run of the ord binary ends with an error (a non-zero
  exit): if its stderr or stdout contains \<open>already exists\<close>, \<open>createOrdWallet\<close> resolves;
  if neither does and stderr is not a version mismatch (or no retry is allowed),
  \<open>createOrdWallet\<close> rejects with \<open>Failed to create wallet: \<close> followed by the raw stderr
  (by the message of the error when stderr is empty), a text that contains the raw stderr.
\<close>

theorem createOrdWallet_idempotent:
  fixes e :: env and st :: state and walletName :: "string option"
  defines "r \<equiv> execOrd e (trace st) (ordWalletArgs e (walletOrCurrent e walletName) [''create''])"
  assumes failed: "execError r = Some message"
  shows "(includes_str (stderr r) ''already exists'' \<or> includes_str (stdout r) ''already exists'' \<longrightarrow>
            fst (createOrdWallet e walletName retry st) = Inr ()) \<and>
         (\<not> includes_str (stderr r) ''already exists'' \<and> \<not> includes_str (stdout r) ''already exists'' \<and>
          (\<not> isVersionMismatchError (stderr r) \<or> \<not> retry) \<longrightarrow>
            fst (createOrdWallet e walletName retry st) =
              Inl (''Failed to create wallet: '' @ (if stderr r \<noteq> [] then stderr r else message)) \<and>
            includes_str (''Failed to create wallet: '' @ (if stderr r \<noteq> [] then stderr r else message))
              (stderr r))"
proof -
  have carry: "includes_str (''Failed to create wallet: '' @ (if stderr r \<noteq> [] then stderr r else message))
              (stderr r)"
  proof (cases "stderr r = []")
    case True
    then show ?thesis by (simp only: includes_str_empty)
  next
    case False
    then show ?thesis
      using includes_str_append [of "''Failed to create wallet: ''" "stderr r" "[]"] by simp
  qed
  have a: "includes_str (stderr r) ''already exists'' \<or> includes_str (stdout r) ''already exists'' \<longrightarrow>
            fst (createOrdWallet e walletName retry st) = Inr ()"
    using failed unfolding r_def by (subst createOrdWallet.simps) (simp add: Let_def)
  have b: "\<not> includes_str (stderr r) ''already exists'' \<and> \<not> includes_str (stdout r) ''already exists'' \<and>
          (\<not> isVersionMismatchError (stderr r) \<or> \<not> retry) \<longrightarrow>
            fst (createOrdWallet e walletName retry st) =
              Inl (''Failed to create wallet: '' @ (if stderr r \<noteq> [] then stderr r else message))"
    using failed unfolding r_def by (subst createOrdWallet.simps) (auto simp: Let_def)
  from a b carry show ?thesis by blast
qed

lemma already_exists_stderr: "includes_str ''error: wallet `ord` already exists'' ''already exists''"
  by code_simp

lemma refused_not_exists: "\<not> includes_str ''error: Connection refused'' ''already exists''"
  by code_simp

lemma refused_not_mismatch: "\<not> isVersionMismatchError ''error: Connection refused''"
  by code_simp

theorem createOrdWallet_idempotent_witness:
  "fst (createOrdWallet walletExistsEnv (Some ''ord'') True initState) = Inr () \<and>
   fst (createOrdWallet walletFailsEnv (Some ''ord'') True initState) =
     Inl ''Failed to create wallet: error: Connection refused''"
proof -
  have ex: "execOrd walletExistsEnv tr args =
      \<lparr>execError = Some ''Command failed'', stdout = [], stderr = ''error: wallet `ord` already exists''\<rparr>"
    for tr args
    by (simp add: walletExistsEnv_def)
  have fl: "execOrd walletFailsEnv tr args =
      \<lparr>execError = Some ''Command failed'', stdout = [], stderr = ''error: Connection refused''\<rparr>"
    for tr args
    by (simp add: walletFailsEnv_def)
  have a: "fst (createOrdWallet walletExistsEnv (Some ''ord'') True initState) = Inr ()"
    using createOrdWallet_idempotent
            [of walletExistsEnv initState "Some ''ord''" "''Command failed''" True]
          already_exists_stderr
    by (simp add: ex)
  have b: "fst (createOrdWallet walletFailsEnv (Some ''ord'') True initState) =
     Inl ''Failed to create wallet: error: Connection refused''"
    using createOrdWallet_idempotent
            [of walletFailsEnv initState "Some ''ord''" "''Command failed''" True]
          refused_not_exists refused_not_mismatch
    by (simp add: fl includes_str_iff)
  from a b show ?thesis by blast
qed

lemma createOrdWallet_filter:
  assumes "\<And>ev. isWalletCreateEvent ev \<Longrightarrow> \<not> P ev"
  shows "filter P (trace (snd (createOrdWallet e w retry st))) = filter P (trace st)"
proof -
  obtain evs where evs: "trace (snd (createOrdWallet e w retry st)) = trace st @ evs"
    "\<forall>ev \<in> set evs. isWalletCreateEvent ev"
    using createOrdWallet_events by blast
  with assms have "filter P evs = []" by (auto simp: filter_empty_conv)
  with evs(1) show ?thesis by simp
qed

lemma createOrdWallet_no_generate:
  "filter isGenerate (trace (snd (createOrdWallet e w retry st))) = filter isGenerate (trace st)"
proof (rule createOrdWallet_filter)
  fix ev show "isWalletCreateEvent ev \<Longrightarrow> \<not> isGenerate ev" by (cases ev) auto
qed

lemma createOrdWallet_no_inscribe:
  "filter isInscribe (trace (snd (createOrdWallet e w retry st))) = filter isInscribe (trace st)"
proof (rule createOrdWallet_filter)
  fix ev show "isWalletCreateEvent ev \<Longrightarrow> \<not> isInscribe ev" by (cases ev) auto
qed

section \<open>Mining is for regtest only\<close>

text \<open>
  Claim C7. On every network other than regtest \<open>mineBlocks\<close> only shows the warning
  \<open>Mining is only available in regtest mode\<close> and returns: the state is otherwise
  unchanged and no RPC call is made. On regtest, with bitcoind running, a non-empty input
  and a receive address from the ord wallet, it goes on to resolve the address and to call
  \<open>generatetoaddress\<close> with the parsed count and that address.
\<close>

theorem mineBlocks_only_on_regtest:
  "(cfgNetwork e \<noteq> regtest \<longrightarrow>
      mineBlocks e st =
        emit (ShowWarningMessage
                (''Mining is only available in regtest mode (current: '' @
                 networkName (cfgNetwork e) @ '').'')) st \<and>
      filter isRpcCall (trace (mineBlocks e st)) = filter isRpcCall (trace st)) \<and>
   (cfgNetwork e = regtest \<and> bitcoindAlive st \<and> showInputBox e (trace st) = Some input \<and>
    input \<noteq> [] \<and> ordReceiveAddress e (trace st) = Inr address \<longrightarrow>
      (\<exists>rest. trace (mineBlocks e st) =
         trace st @ [OrdWallet ''receive'',
                     RpcCall ''generatetoaddress'' [PNum (parseInt input), PStr address] None] @ rest))"
proof -
  have a: "cfgNetwork e \<noteq> regtest \<longrightarrow>
      mineBlocks e st =
        emit (ShowWarningMessage
                (''Mining is only available in regtest mode (current: '' @
                 networkName (cfgNetwork e) @ '').'')) st \<and>
      filter isRpcCall (trace (mineBlocks e st)) = filter isRpcCall (trace st)"
    by (simp add: mineBlocks_def emit_def)
  have b: "cfgNetwork e = regtest \<and> bitcoindAlive st \<and> showInputBox e (trace st) = Some input \<and>
    input \<noteq> [] \<and> ordReceiveAddress e (trace st) = Inr address \<longrightarrow>
      (\<exists>rest. trace (mineBlocks e st) =
         trace st @ [OrdWallet ''receive'',
                     RpcCall ''generatetoaddress'' [PNum (parseInt input), PStr address] None] @ rest)"
    by (auto simp: mineBlocks_def miningAddress_def getOrdReceiveAddress_def generateToAddress_def
          isBitcoindRunning_def emit_def Let_def split: sum.splits)
  from a b show ?thesis by blast
qed

theorem mineBlocks_only_on_regtest_witness:
  "cfgNetwork mainnetEnv \<noteq> regtest \<and>
   trace (mineBlocks mainnetEnv runningState) =
     [ShowWarningMessage ''Mining is only available in regtest mode (current: mainnet).''] \<and>
   filter isRpcCall (trace (mineBlocks mainnetEnv runningState)) = [] \<and>
   cfgNetwork baseEnv = regtest \<and> bitcoindAlive runningState \<and>
   (\<exists>rest. trace (mineBlocks baseEnv runningState) =
      [OrdWallet ''receive'', RpcCall ''generatetoaddress'' [PNum (parseInt ''1''), PStr ''bcrt1qord''] None] @ rest)"
proof -
  have m: "cfgNetwork mainnetEnv = mainnet"
    by (simp add: mainnetEnv_def)
  have r: "cfgNetwork baseEnv = regtest" "showInputBox baseEnv tr = Some ''1''"
    "ordReceiveAddress baseEnv tr = Inr ''bcrt1qord''" for tr
    by (simp_all add: baseEnv_def)
  have s: "trace runningState = []" "bitcoindAlive runningState"
    by (simp_all add: runningState_def)
  show ?thesis
    using mineBlocks_only_on_regtest [of mainnetEnv runningState "''1''" "''bcrt1qord''"]
      mineBlocks_only_on_regtest [of baseEnv runningState "''1''" "''bcrt1qord''"] m r s
    by (simp add: emit_def)
qed

section \<open>Funding the wallet\<close>

text \<open>The body of \<open>ensureWalletFunded\<close> with the calls of the RPC client and of the
  wallet operations written out.\<close>

lemma ensureWalletFunded_try_unfold:
  assumes c: "createOrdWallet e None True st = (r1, st1)"
  shows "ensureWalletFunded_try e st =
     (case (case r1 of
              Inl msg \<Rightarrow> if \<not> includes_str msg ''already exists'' then Some msg else None
            | Inr u \<Rightarrow> None) of
        Some msg \<Rightarrow> (Inl msg, st1)
      | None \<Rightarrow>
          (case rpcListWallets e (trace st1) of
             Inl err \<Rightarrow> (Inl err, emit (RpcCall ''listwallets'' [] None) st1)
           | Inr wallets \<Rightarrow>
               (let st3 =
                      (if ''mining'' \<notin> set wallets then
                         (case createBitcoinWallet e ''mining'' (emit (RpcCall ''listwallets'' [] None) st1) of
                            (Inl err, s) \<Rightarrow> snd (loadWallet e ''mining'' s)
                          | (Inr u, s) \<Rightarrow> s)
                       else emit (RpcCall ''listwallets'' [] None) st1);
                    st4 = emit (OrdWallet ''balance'') st3
                in case ordBalance e (trace st3) of
                     Inl err \<Rightarrow> (Inl err, st4)
                   | Inr balance \<Rightarrow>
                       if lt (cardinal balance) (Num 10000) \<and> cfgNetwork e = regtest then
                         (case ordReceiveAddress e (trace st4) of
                            Inl err \<Rightarrow> (Inl err, emit (OrdWallet ''receive'') st4)
                          | Inr address \<Rightarrow>
                              (case rpcGenerateToAddress e (trace (emit (OrdWallet ''receive'') st4))
                                      (Num 101) address of
                                 Inl err \<Rightarrow> Inl err
                               | Inr blocks \<Rightarrow> Inr True,
                               emit (RpcCall ''generatetoaddress'' [PNum (Num 101), PStr address] None)
                                 (emit (OrdWallet ''receive'') st4)))
                       else (Inr (ge (cardinal balance) (Num 10000)), st4))))"
  unfolding ensureWalletFunded_try_def c listBitcoinWallets_def getOrdBalance_def
    getOrdReceiveAddress_def generateToAddress_def COINBASE_MATURITY_def Let_def
  by (simp split: sum.splits option.splits)

lemma ensureWalletFunded_generate_shape:
  "\<exists>gens. filter isGenerate (trace (snd (ensureWalletFunded e st))) =
            filter isGenerate (trace st) @ gens \<and>
          (gens = [] \<or>
           (\<exists>address. gens = [RpcCall ''generatetoaddress'' [PNum (Num 101), PStr address] None]))"
proof -
  obtain r1 st1 where c: "createOrdWallet e None True st = (r1, st1)"
    by (cases "createOrdWallet e None True st")
  have f1: "filter isGenerate (trace st1) = filter isGenerate (trace st)"
    using createOrdWallet_no_generate [of e None True st] c by simp
  define st2 where "st2 = emit (RpcCall ''listwallets'' [] None) st1"
  define st3 where "st3 = (\<lambda>wallets.
      if ''mining'' \<notin> set wallets then
        (case createBitcoinWallet e ''mining'' st2 of
           (Inl err, s) \<Rightarrow> snd (loadWallet e ''mining'' s)
         | (Inr u, s) \<Rightarrow> s)
      else st2)"
  define tail where "tail = (\<lambda>s3.
      case ordBalance e (trace s3) of
        Inl err \<Rightarrow> (Inl err, emit (OrdWallet ''balance'') s3)
      | Inr balance \<Rightarrow>
          if lt (cardinal balance) (Num 10000) \<and> cfgNetwork e = regtest then
            (case ordReceiveAddress e (trace (emit (OrdWallet ''balance'') s3)) of
               Inl err \<Rightarrow> (Inl err, emit (OrdWallet ''receive'') (emit (OrdWallet ''balance'') s3))
             | Inr address \<Rightarrow>
                 (case rpcGenerateToAddress e
                         (trace (emit (OrdWallet ''receive'') (emit (OrdWallet ''balance'') s3)))
                         (Num 101) address of
                    Inl err \<Rightarrow> Inl err
                  | Inr blocks \<Rightarrow> Inr True,
                  emit (RpcCall ''generatetoaddress'' [PNum (Num 101), PStr address] None)
                    (emit (OrdWallet ''receive'') (emit (OrdWallet ''balance'') s3))))
          else (Inr (ge (cardinal balance) (Num 10000)), emit (OrdWallet ''balance'') s3))"
  have f2: "filter isGenerate (trace st2) = filter isGenerate (trace st)"
    using f1 by (simp add: st2_def emit_def)
  have f3: "filter isGenerate (trace (st3 wallets)) = filter isGenerate (trace st)" for wallets
    using f2
    by (simp add: st3_def createBitcoinWallet_def loadWallet_def emit_def
          split: sum.splits prod.splits)
  have ft: "\<exists>gens. filter isGenerate (trace (snd (tail s3))) = filter isGenerate (trace s3) @ gens \<and>
          (gens = [] \<or>
           (\<exists>address. gens = [RpcCall ''generatetoaddress'' [PNum (Num 101), PStr address] None]))"
    for s3
    by (simp add: tail_def emit_def split: sum.splits)
  have u: "ensureWalletFunded_try e st =
     (case (case r1 of
              Inl msg \<Rightarrow> if \<not> includes_str msg ''already exists'' then Some msg else None
            | Inr u \<Rightarrow> None) of
        Some msg \<Rightarrow> (Inl msg, st1)
      | None \<Rightarrow>
          (case rpcListWallets e (trace st1) of
             Inl err \<Rightarrow> (Inl err, st2)
           | Inr wallets \<Rightarrow> tail (st3 wallets)))"
    unfolding ensureWalletFunded_try_unfold [OF c] tail_def st3_def st2_def Let_def
    by (rule refl)
  have s: "snd (ensureWalletFunded e st) = snd (ensureWalletFunded_try e st)"
    by (simp add: ensureWalletFunded_def split: prod.splits sum.splits)
  show ?thesis
  proof (cases "case r1 of
              Inl msg \<Rightarrow> if \<not> includes_str msg ''already exists'' then Some msg else None
            | Inr u \<Rightarrow> None")
    case (Some msg)
    then show ?thesis using f1 by (simp add: s u)
  next
    case None
    show ?thesis
    proof (cases "rpcListWallets e (trace st1)")
      case (Inl err)
      then show ?thesis using None f2 by (simp add: s u)
    next
      case (Inr wallets)
      then have "snd (ensureWalletFunded e st) = snd (tail (st3 wallets))"
        using None by (simp add: s u)
      then show ?thesis using ft [of "st3 wallets"] f3 [of wallets] by simp
    qed
  qed
qed

text \<open>
  Claim C8. \<open>COINBASE_MATURITY + 1\<close> is 101. Whatever happens, \<open>ensureWalletFunded\<close> makes
  at most one \<open>generatetoaddress\<close> call, and that call asks for 101 blocks. On regtest,
  when the wallet exists or is created, the wallets can be listed, the balance is read
  with a cardinal amount below 10000 and the ord wallet gives its receive address, it
  makes exactly that one call: 101 blocks to the receive address.
\<close>

theorem ensureWalletFunded_mines_101:
  "COINBASE_MATURITY + 1 = 101 \<and>
   (\<exists>gens. filter isGenerate (trace (snd (ensureWalletFunded e st))) =
            filter isGenerate (trace st) @ gens \<and>
          (gens = [] \<or>
           (\<exists>a. gens = [RpcCall ''generatetoaddress'' [PNum (Num 101), PStr a] None]))) \<and>
   (cfgNetwork e = regtest \<and>
    (case fst (createOrdWallet e None True st) of
       Inl msg \<Rightarrow> includes_str msg ''already exists'' | Inr u \<Rightarrow> True) \<and>
    (\<forall>tr. \<not> isl (rpcListWallets e tr)) \<and>
    (\<forall>tr. \<exists>b. ordBalance e tr = Inr b \<and> lt (cardinal b) (Num 10000)) \<and>
    (\<forall>tr. ordReceiveAddress e tr = Inr address) \<longrightarrow>
      filter isGenerate (trace (snd (ensureWalletFunded e st))) =
        filter isGenerate (trace st) @
          [RpcCall ''generatetoaddress'' [PNum (Num 101), PStr address] None])"
proof -
  have m: "COINBASE_MATURITY + 1 = 101"
    by (simp add: COINBASE_MATURITY_def)
  have main: "filter isGenerate (trace (snd (ensureWalletFunded e st))) =
        filter isGenerate (trace st) @
          [RpcCall ''generatetoaddress'' [PNum (Num 101), PStr address] None]"
    if net: "cfgNetwork e = regtest"
      and created: "case fst (createOrdWallet e None True st) of
                      Inl msg \<Rightarrow> includes_str msg ''already exists'' | Inr u \<Rightarrow> True"
      and listed: "\<forall>tr. \<not> isl (rpcListWallets e tr)"
      and low: "\<forall>tr. \<exists>b. ordBalance e tr = Inr b \<and> lt (cardinal b) (Num 10000)"
      and addr: "\<forall>tr. ordReceiveAddress e tr = Inr address"
  proof -
    obtain r1 st1 where c: "createOrdWallet e None True st = (r1, st1)"
      by (cases "createOrdWallet e None True st")
    have f1: "filter isGenerate (trace st1) = filter isGenerate (trace st)"
      using createOrdWallet_no_generate [of e None True st] c by simp
    have ok: "(case r1 of Inl msg \<Rightarrow> if \<not> includes_str msg ''already exists'' then Some msg else None
                | Inr u \<Rightarrow> None) = None"
      using created c by (cases r1) auto
    have "\<not> isl (rpcListWallets e (trace st1))"
      using listed by simp
    then obtain wallets where w: "rpcListWallets e (trace st1) = Inr wallets"
      by (cases "rpcListWallets e (trace st1)") auto
    define st2 where "st2 = emit (RpcCall ''listwallets'' [] None) st1"
    define st3 where "st3 =
        (if ''mining'' \<notin> set wallets then
           (case createBitcoinWallet e ''mining'' st2 of
              (Inl err, s) \<Rightarrow> snd (loadWallet e ''mining'' s)
            | (Inr u, s) \<Rightarrow> s)
         else st2)"
    have f3: "filter isGenerate (trace st3) = filter isGenerate (trace st)"
      using f1
      by (simp add: st3_def st2_def createBitcoinWallet_def loadWallet_def emit_def
            split: sum.splits prod.splits)
    obtain b where b: "ordBalance e (trace st3) = Inr b" "lt (cardinal b) (Num 10000)"
      using low by blast
    have a: "ordReceiveAddress e tr = Inr address" for tr
      using addr by simp
    have s: "snd (ensureWalletFunded e st) = snd (ensureWalletFunded_try e st)"
      by (simp add: ensureWalletFunded_def split: prod.splits sum.splits)
    have "snd (ensureWalletFunded_try e st) =
        emit (RpcCall ''generatetoaddress'' [PNum (Num 101), PStr address] None)
          (emit (OrdWallet ''receive'') (emit (OrdWallet ''balance'') st3))"
      unfolding ensureWalletFunded_try_unfold [OF c] ok w option.case sum.case Let_def
        st2_def [symmetric] st3_def [symmetric] b(1)
      using b(2) net by (simp add: a)
    then show ?thesis using f3 by (simp add: s emit_def)
  qed
  from m ensureWalletFunded_generate_shape [of e st] main show ?thesis by blast
qed

theorem ensureWalletFunded_mines_101_witness:
  "cfgNetwork baseEnv = regtest \<and>
   fst (createOrdWallet baseEnv None True initState) = Inr () \<and>
   filter isGenerate (trace (snd (ensureWalletFunded baseEnv initState))) =
     [RpcCall ''generatetoaddress'' [PNum (Num 101), PStr ''bcrt1qord''] None]"
proof -
  have net: "cfgNetwork baseEnv = regtest"
    by (simp add: baseEnv_def)
  have ex: "execOrd baseEnv tr args = \<lparr>execError = None, stdout = [], stderr = []\<rparr>" for tr args
    by (simp add: baseEnv_def)
  have created: "fst (createOrdWallet baseEnv None True initState) = Inr ()"
    by (subst createOrdWallet.simps) (simp add: Let_def ex)
  have listed: "\<forall>tr. \<not> isl (rpcListWallets baseEnv tr)"
    by (simp add: baseEnv_def)
  have low: "\<forall>tr. \<exists>b. ordBalance baseEnv tr = Inr b \<and> lt (cardinal b) (Num 10000)"
    by (simp add: baseEnv_def)
  have addr: "\<forall>tr. ordReceiveAddress baseEnv tr = Inr ''bcrt1qord''"
    by (simp add: baseEnv_def)
  have t0: "trace initState = []"
    by (simp add: initState_def)
  show ?thesis
    using ensureWalletFunded_mines_101 [of baseEnv initState "''bcrt1qord''"]
      net created listed low addr
    by (simp add: t0)
qed

section \<open>The port pre-check of the node start\<close>

lemma waitBitcoindReady_no_spawn:
  "filter isSpawn (trace (snd (waitBitcoindReady polls i st))) = filter isSpawn (trace st)"
proof (induction polls i st rule: waitBitcoindReady.induct)
  case (1 polls i st)
  show ?case
  proof (cases "i < maxAttemptsBitcoind \<and> \<not> fst (polls i) \<and> snd (polls i)")
    case True
    then have "waitBitcoindReady polls i st =
        waitBitcoindReady polls (Suc i) (emit (RpcCall ''getblockchaininfo'' [] None) st)"
      by (subst waitBitcoindReady.simps) (simp add: Let_def)
    moreover have "filter isSpawn
        (trace (snd (waitBitcoindReady polls (Suc i) (emit (RpcCall ''getblockchaininfo'' [] None) st)))) =
        filter isSpawn (trace (emit (RpcCall ''getblockchaininfo'' [] None) st))"
      using "1.IH" [OF _ refl refl refl] True by simp
    ultimately show ?thesis by (simp add: emit_def)
  next
    case False
    then show ?thesis
      by (subst waitBitcoindReady.simps) (auto simp: Let_def emit_def)
  qed
qed

lemma busy_stdout:
  "trim ''  TCP    127.0.0.1:18443    0.0.0.0:0    LISTENING    4242'' \<noteq> []"
  by (simp add: trim_def isWhiteSpace_def)

lemma startBitcoind_spawns_off_windows:
  assumes "getPlatform e \<noteq> windows" "\<not> bitcoindAlive st"
    "existsSync e (trace st) (getBitcoindPath e)"
  shows "filter isSpawn (trace (snd (startBitcoind e st))) =
           filter isSpawn (trace st) @
             [Spawn (getBitcoindPath e)
                (bitcoindArgs e (getRpcPort (cfgBitcoindRpcPort e) (cfgNetwork e)))]"
  using assms
  by (simp add: startBitcoind_def isBitcoindRunning_def checkPortInUse_def Let_def
        waitBitcoindReady_no_spawn emit_def)

lemma digitChar_table:
  "digitChar 0 = CHR ''0''" "digitChar (Suc 0) = CHR ''1''" "digitChar 2 = CHR ''2''"
  "digitChar 3 = CHR ''3''" "digitChar 4 = CHR ''4''" "digitChar 5 = CHR ''5''"
  "digitChar 6 = CHR ''6''" "digitChar 7 = CHR ''7''" "digitChar 8 = CHR ''8''"
  "digitChar 9 = CHR ''9''"
  by code_simp+

lemma showInt_18443: "showInt 18443 = ''18443''"
  by (simp add: showInt_def showNat.simps digitChar_table)

text \<open>
  As the claim is worded, a listener on the RPC port that answers the probe is adopted
  without a spawn. On Linux \<open>checkPortInUse\<close> answers \<open>false\<close> without looking, so with
  such a listener present \<open>startBitcoind\<close> spawns a bitcoind of its own.
\<close>

theorem startBitcoind_adopt_counterexample:
  "portHasListener linuxBusyEnv (trace initState)
     (getRpcPort (cfgBitcoindRpcPort linuxBusyEnv) (cfgNetwork linuxBusyEnv)) \<and>
   fst (isBitcoindReady linuxBusyEnv initState) \<and>
   filter isSpawn (trace (snd (startBitcoind linuxBusyEnv initState))) =
     [Spawn ''/bin/bitcoind''
        [''-regtest'', ''-server'', ''-rpcport=18443'', ''-datadir=/home/u/.bitcoin'',
         ''-fallbackfee=0.00001'', ''-txindex=1'', ''-rpcallowip=127.0.0.1'',
         ''-rpcbind=127.0.0.1'']]"
proof -
  have f: "getPlatform linuxBusyEnv = linux" "cfgNetwork linuxBusyEnv = regtest"
    "cfgBitcoindRpcPort linuxBusyEnv = 18443" "getBitcoindPath linuxBusyEnv = ''/bin/bitcoind''"
    "getBitcoinDataDirectory linuxBusyEnv = ''/home/u/.bitcoin''"
    by (simp_all add: linuxBusyEnv_def baseEnv_def)
  have g: "existsSync linuxBusyEnv tr p" "rpcGetBlockchainInfo linuxBusyEnv tr = Inr ()"
    "netstatListening linuxBusyEnv tr port =
       \<lparr>execError = None,
        stdout = ''  TCP    127.0.0.1:18443    0.0.0.0:0    LISTENING    4242'', stderr = []\<rparr>"
    for tr p port
    by (simp_all add: linuxBusyEnv_def baseEnv_def)
  have s: "\<not> bitcoindAlive initState" "trace initState = []"
    by (simp_all add: initState_def)
  have a: "portHasListener linuxBusyEnv (trace initState)
     (getRpcPort (cfgBitcoindRpcPort linuxBusyEnv) (cfgNetwork linuxBusyEnv))"
    using busy_stdout by (simp add: portHasListener_def g)
  have b: "fst (isBitcoindReady linuxBusyEnv initState)"
    by (simp add: isBitcoindReady_def g)
  have port: "getRpcPort (cfgBitcoindRpcPort linuxBusyEnv) (cfgNetwork linuxBusyEnv) = 18443"
    by (simp add: getRpcPort_def f)
  have args: "bitcoindArgs linuxBusyEnv 18443 =
      [''-regtest'', ''-server'', ''-rpcport=18443'', ''-datadir=/home/u/.bitcoin'',
       ''-fallbackfee=0.00001'', ''-txindex=1'', ''-rpcallowip=127.0.0.1'', ''-rpcbind=127.0.0.1'']"
    by (simp add: bitcoindArgs_def f showInt_18443)
  have nw: "getPlatform linuxBusyEnv \<noteq> windows"
    by (simp add: f)
  have c: "filter isSpawn (trace (snd (startBitcoind linuxBusyEnv initState))) =
     [Spawn ''/bin/bitcoind'' (bitcoindArgs linuxBusyEnv 18443)]"
    using startBitcoind_spawns_off_windows [OF nw s(1) g(1)] by (simp add: s(2) port f(4))
  from a b c show ?thesis by (simp only: args simp_thms)
qed

text \<open>
  Claim C4, as the code has it. Take a call of \<open>startBitcoind\<close> with no bitcoind of the
  extension running and the binary present. On Windows, when netstat reports a listener on
  the RPC port: if the RPC probe answers, the call succeeds after the netstat run and the
  probe, and if the probe fails, the call fails at once with \<open>Port N is in use but bitcoind
  is not responding\<close>; in both cases nothing is spawned and nothing is retried. On every
  other platform the port is not looked at and a bitcoind is spawned.
\<close>

theorem startBitcoind_port_precheck:
  fixes e :: env and st :: state
  defines "rpcPort \<equiv> getRpcPort (cfgBitcoindRpcPort e) (cfgNetwork e)"
  defines "st1 \<equiv> emit (Netstat rpcPort) st"
  defines "st2 \<equiv> emit (RpcCall ''getblockchaininfo'' [] None) st1"
  assumes notRunning: "\<not> bitcoindAlive st"
    and binary: "existsSync e (trace st) (getBitcoindPath e)"
  shows "(getPlatform e = windows \<and> portHasListener e (trace st) rpcPort \<longrightarrow>
            (\<not> isl (rpcGetBlockchainInfo e (trace st1)) \<longrightarrow> startBitcoind e st = (Inr (), st2)) \<and>
            (isl (rpcGetBlockchainInfo e (trace st1)) \<longrightarrow>
               startBitcoind e st =
                 (Inl (''Port '' @ showInt rpcPort @
                       '' is in use but bitcoind is not responding. Another process may be using this port.''),
                  st2)) \<and>
            filter isSpawn (trace st2) = filter isSpawn (trace st)) \<and>
         (getPlatform e \<noteq> windows \<longrightarrow>
            filter isSpawn (trace (snd (startBitcoind e st))) =
              filter isSpawn (trace st) @ [Spawn (getBitcoindPath e) (bitcoindArgs e rpcPort)])"
proof -
  have w: "getPlatform e = windows \<and> portHasListener e (trace st) rpcPort \<longrightarrow>
            (\<not> isl (rpcGetBlockchainInfo e (trace st1)) \<longrightarrow> startBitcoind e st = (Inr (), st2)) \<and>
            (isl (rpcGetBlockchainInfo e (trace st1)) \<longrightarrow>
               startBitcoind e st =
                 (Inl (''Port '' @ showInt rpcPort @
                       '' is in use but bitcoind is not responding. Another process may be using this port.''),
                  st2)) \<and>
            filter isSpawn (trace st2) = filter isSpawn (trace st)"
    using notRunning binary
    by (auto simp: startBitcoind_def isBitcoindRunning_def checkPortInUse_def portHasListener_def
          isBitcoindReady_def Let_def st1_def st2_def rpcPort_def emit_def
        split: sum.splits)
  have l: "getPlatform e \<noteq> windows \<longrightarrow>
            filter isSpawn (trace (snd (startBitcoind e st))) =
              filter isSpawn (trace st) @ [Spawn (getBitcoindPath e) (bitcoindArgs e rpcPort)]"
    using notRunning binary
    by (simp add: startBitcoind_def isBitcoindRunning_def checkPortInUse_def Let_def rpcPort_def
          waitBitcoindReady_no_spawn emit_def)
  from w l show ?thesis by blast
qed

theorem startBitcoind_port_precheck_witness:
  "\<not> bitcoindAlive initState \<and>
   getPlatform windowsBusyEnv = windows \<and>
   portHasListener windowsBusyEnv (trace initState) 18443 \<and>
   fst (startBitcoind windowsBusyEnv initState) = Inr () \<and>
   filter isSpawn (trace (snd (startBitcoind windowsBusyEnv initState))) = [] \<and>
   fst (startBitcoind windowsDeafEnv initState) =
     Inl ''Port 18443 is in use but bitcoind is not responding. Another process may be using this port.'' \<and>
   filter isSpawn (trace (snd (startBitcoind windowsDeafEnv initState))) = []"
proof -
  have s: "\<not> bitcoindAlive initState" "trace initState = []"
    by (simp_all add: initState_def)
  have pb: "getRpcPort (cfgBitcoindRpcPort windowsBusyEnv) (cfgNetwork windowsBusyEnv) = 18443"
    "getRpcPort (cfgBitcoindRpcPort windowsDeafEnv) (cfgNetwork windowsDeafEnv) = 18443"
    by (simp_all add: getRpcPort_def windowsDeafEnv_def windowsBusyEnv_def linuxBusyEnv_def baseEnv_def)
  have wb: "getPlatform windowsBusyEnv = windows" "existsSync windowsBusyEnv tr p"
    "portHasListener windowsBusyEnv tr 18443" "\<not> isl (rpcGetBlockchainInfo windowsBusyEnv tr)" for tr p
    using busy_stdout
    by (simp_all add: portHasListener_def windowsBusyEnv_def linuxBusyEnv_def baseEnv_def)
  have wd: "getPlatform windowsDeafEnv = windows" "existsSync windowsDeafEnv tr p"
    "portHasListener windowsDeafEnv tr 18443" "isl (rpcGetBlockchainInfo windowsDeafEnv tr)" for tr p
    using busy_stdout
    by (simp_all add: portHasListener_def windowsDeafEnv_def windowsBusyEnv_def linuxBusyEnv_def baseEnv_def)
  note port = showInt_18443
  have a: "fst (startBitcoind windowsBusyEnv initState) = Inr () \<and>
      filter isSpawn (trace (snd (startBitcoind windowsBusyEnv initState))) = []"
    using startBitcoind_port_precheck [of initState windowsBusyEnv, OF s(1) wb(2)] wb
    by (simp add: pb s emit_def)
  have b: "fst (startBitcoind windowsDeafEnv initState) =
     Inl ''Port 18443 is in use but bitcoind is not responding. Another process may be using this port.'' \<and>
   filter isSpawn (trace (snd (startBitcoind windowsDeafEnv initState))) = []"
    using startBitcoind_port_precheck [of initState windowsDeafEnv, OF s(1) wd(2)] wd
    by (simp add: pb s emit_def port)
  from s(1) wb(1) wb(3) [of "trace initState"] a b show ?thesis by blast
qed

section \<open>The publish workflow waits for the indexer\<close>

lemma ensureWalletFunded_filter:
  assumes p1: "\<And>ev. isWalletCreateEvent ev \<Longrightarrow> \<not> P ev"
    and p2: "\<And>m ps w. \<not> P (RpcCall m ps w)"
    and p3: "\<And>s. \<not> P (OrdWallet s)"
  shows "filter P (trace (snd (ensureWalletFunded e st))) = filter P (trace st)"
proof -
  obtain r1 st1 where c: "createOrdWallet e None True st = (r1, st1)"
    by (cases "createOrdWallet e None True st")
  have f1: "filter P (trace st1) = filter P (trace st)"
    using createOrdWallet_filter [of P e None True st] p1 c by simp
  define st2 where "st2 = emit (RpcCall ''listwallets'' [] None) st1"
  define st3 where "st3 = (\<lambda>wallets.
      if ''mining'' \<notin> set wallets then
        (case createBitcoinWallet e ''mining'' st2 of
           (Inl err, s) \<Rightarrow> snd (loadWallet e ''mining'' s)
         | (Inr u, s) \<Rightarrow> s)
      else st2)"
  define tail where "tail = (\<lambda>s3.
      case ordBalance e (trace s3) of
        Inl err \<Rightarrow> (Inl err, emit (OrdWallet ''balance'') s3)
      | Inr balance \<Rightarrow>
          if lt (cardinal balance) (Num 10000) \<and> cfgNetwork e = regtest then
            (case ordReceiveAddress e (trace (emit (OrdWallet ''balance'') s3)) of
               Inl err \<Rightarrow> (Inl err, emit (OrdWallet ''receive'') (emit (OrdWallet ''balance'') s3))
             | Inr address \<Rightarrow>
                 (case rpcGenerateToAddress e
                         (trace (emit (OrdWallet ''receive'') (emit (OrdWallet ''balance'') s3)))
                         (Num 101) address of
                    Inl err \<Rightarrow> Inl err
                  | Inr blocks \<Rightarrow> Inr True,
                  emit (RpcCall ''generatetoaddress'' [PNum (Num 101), PStr address] None)
                    (emit (OrdWallet ''receive'') (emit (OrdWallet ''balance'') s3))))
          else (Inr (ge (cardinal balance) (Num 10000)), emit (OrdWallet ''balance'') s3))"
  have f2: "filter P (trace st2) = filter P (trace st)"
    using f1 p2 by (simp add: st2_def emit_def)
  have f3: "filter P (trace (st3 wallets)) = filter P (trace st)" for wallets
    using f2 p2
    by (simp add: st3_def createBitcoinWallet_def loadWallet_def emit_def
          split: sum.splits prod.splits)
  have ft: "filter P (trace (snd (tail s3))) = filter P (trace s3)" for s3
    using p2 p3 by (simp add: tail_def emit_def split: sum.splits)
  have u: "ensureWalletFunded_try e st =
     (case (case r1 of
              Inl msg \<Rightarrow> if \<not> includes_str msg ''already exists'' then Some msg else None
            | Inr u \<Rightarrow> None) of
        Some msg \<Rightarrow> (Inl msg, st1)
      | None \<Rightarrow>
          (case rpcListWallets e (trace st1) of
             Inl err \<Rightarrow> (Inl err, st2)
           | Inr wallets \<Rightarrow> tail (st3 wallets)))"
    unfolding ensureWalletFunded_try_unfold [OF c] tail_def st3_def st2_def Let_def
    by (rule refl)
  have s: "snd (ensureWalletFunded e st) = snd (ensureWalletFunded_try e st)"
    by (simp add: ensureWalletFunded_def split: prod.splits sum.splits)
  show ?thesis
  proof (cases "case r1 of
              Inl msg \<Rightarrow> if \<not> includes_str msg ''already exists'' then Some msg else None
            | Inr u \<Rightarrow> None")
    case (Some msg)
    then show ?thesis using f1 by (simp add: s u)
  next
    case None
    show ?thesis
    proof (cases "rpcListWallets e (trace st1)")
      case (Inl err)
      then show ?thesis using None f2 by (simp add: s u)
    next
      case (Inr wallets)
      then have "snd (ensureWalletFunded e st) = snd (tail (st3 wallets))"
        using None by (simp add: s u)
      then show ?thesis using ft [of "st3 wallets"] f3 [of wallets] by simp
    qed
  qed
qed

lemma ensureWalletFunded_no_inscribe:
  "filter isInscribe (trace (snd (ensureWalletFunded e st))) = filter isInscribe (trace st)"
proof (rule ensureWalletFunded_filter)
  fix ev show "isWalletCreateEvent ev \<Longrightarrow> \<not> isInscribe ev" by (cases ev) auto
qed simp_all

lemma trace_emit: "trace (emit ev st) = trace st @ [ev]"
  by (simp add: emit_def)

text \<open>The wait loop answers \<open>true\<close> exactly when some poll reports a height at or above the
  expected one and the loop test of that pass, made after the time of all earlier passes,
  still finds less than \<open>maxWaitMs\<close> elapsed.\<close>

lemma waitForOrdSyncLoop_iff:
  "waitForOrdSyncLoop polls h m i el \<longleftrightarrow>
     (\<exists>k \<ge> i. (\<exists>b. getOrdBlockCount (fst (polls k)) = Inr b \<and> ge b h) \<and>
             el + (\<Sum>j = i..<k. 500 + snd (polls j)) < m)"
proof (induction polls h m i el rule: waitForOrdSyncLoop.induct)
  case (1 polls h m i el)
  let ?C = "\<lambda>k. \<exists>b. getOrdBlockCount (fst (polls k)) = Inr b \<and> ge b h"
  let ?S = "\<lambda>a k. \<Sum>j = a..<k. 500 + snd (polls j)"
  show ?case
  proof (cases "el < m")
    case False
    then have "\<not> waitForOrdSyncLoop polls h m i el"
      by (subst waitForOrdSyncLoop.simps) simp
    moreover have "\<not> (\<exists>k \<ge> i. ?C k \<and> el + ?S i k < m)"
      using False by auto
    ultimately show ?thesis by blast
  next
    case True
    show ?thesis
    proof (cases "?C i")
      case c: True
      then obtain b where b: "getOrdBlockCount (fst (polls i)) = Inr b" "ge b h" by blast
      have l: "waitForOrdSyncLoop polls h m i el"
        using True b by (subst waitForOrdSyncLoop.simps) simp
      have "i \<le> i \<and> ?C i \<and> el + ?S i i < m"
        using True c by simp
      then have "\<exists>k \<ge> i. ?C k \<and> el + ?S i k < m" by blast
      with l show ?thesis by blast
    next
      case nc: False
      let ?el' = "el + 500 + snd (polls i)"
      have step: "waitForOrdSyncLoop polls h m i el = waitForOrdSyncLoop polls h m (Suc i) ?el'"
      proof (cases "getOrdBlockCount (fst (polls i))")
        case (Inl err)
        with True show ?thesis by (subst waitForOrdSyncLoop.simps) simp
      next
        case (Inr b)
        with nc have "\<not> ge b h" by simp
        with True Inr show ?thesis by (subst waitForOrdSyncLoop.simps) simp
      qed
      have ih: "waitForOrdSyncLoop polls h m (Suc i) ?el' \<longleftrightarrow>
          (\<exists>k \<ge> Suc i. ?C k \<and> ?el' + ?S (Suc i) k < m)"
      proof (cases "getOrdBlockCount (fst (polls i))")
        case (Inl err)
        from "1.IH"(1) [OF True Inl] show ?thesis .
      next
        case (Inr b)
        with nc have n: "\<not> ge b h" by simp
        from "1.IH"(2) [OF True Inr n] show ?thesis .
      qed
      have sums: "?S i k = 500 + snd (polls i) + ?S (Suc i) k" if "Suc i \<le> k" for k
        using that by (simp add: sum.atLeast_Suc_lessThan)
      have "(\<exists>k \<ge> i. ?C k \<and> el + ?S i k < m) \<longleftrightarrow>
            (\<exists>k \<ge> Suc i. ?C k \<and> ?el' + ?S (Suc i) k < m)"
      proof
        assume "\<exists>k \<ge> i. ?C k \<and> el + ?S i k < m"
        then obtain k where k: "i \<le> k" "?C k" "el + ?S i k < m" by blast
        with nc have "k \<noteq> i" by blast
        with k(1) have ki: "Suc i \<le> k" by simp
        with k(3) sums [OF ki] have "?el' + ?S (Suc i) k < m" by simp
        with ki k(2) show "\<exists>k \<ge> Suc i. ?C k \<and> ?el' + ?S (Suc i) k < m" by blast
      next
        assume "\<exists>k \<ge> Suc i. ?C k \<and> ?el' + ?S (Suc i) k < m"
        then obtain k where k: "Suc i \<le> k" "?C k" "?el' + ?S (Suc i) k < m" by blast
        with sums [OF k(1)] have "el + ?S i k < m" by simp
        moreover have "i \<le> k" using k(1) by simp
        ultimately show "\<exists>k \<ge> i. ?C k \<and> el + ?S i k < m" using k(2) by blast
      qed
      with step ih show ?thesis by simp
    qed
  qed
qed

lemma waitForOrdSync_iff:
  "waitForOrdSync e h m st \<longleftrightarrow>
     (\<exists>k b. (\<Sum>j<k. 500 + snd (syncPolls e (trace st) j)) < m \<and>
            getOrdBlockCount (fst (syncPolls e (trace st) k)) = Inr b \<and> ge b h)"
  unfolding waitForOrdSync_def waitForOrdSyncLoop_iff
  by (auto simp: atLeast0LessThan)

text \<open>The ways through the body of \<open>doInscribe\<close>, by the state each one ends in.\<close>

lemma doInscribe_try_not_running:
  assumes "servicesRunning e (trace st) \<noteq> Inr True"
  shows "snd (doInscribe_try e filePath st) = emit EnsureServicesRunning st"
proof (cases "servicesRunning e (trace st)")
  case (Inl err)
  then show ?thesis by (simp add: doInscribe_try_def ensureServicesRunning_def)
next
  case (Inr running)
  with assms have "\<not> running" by simp
  with Inr show ?thesis by (simp add: doInscribe_try_def ensureServicesRunning_def)
qed

lemma doInscribe_try_not_funded:
  assumes "servicesRunning e (trace st) = Inr True"
    and "\<not> fst (ensureWalletFunded e (emit EnsureServicesRunning st))"
    and "cfgNetwork e \<noteq> regtest"
  shows "snd (doInscribe_try e filePath st) =
           emit (ShowErrorMessage ''Wallet does not have enough funds. Please fund your wallet first.'')
             (snd (ensureWalletFunded e (emit EnsureServicesRunning st)))"
proof -
  obtain funded st2 where w: "ensureWalletFunded e (emit EnsureServicesRunning st) = (funded, st2)"
    by (cases "ensureWalletFunded e (emit EnsureServicesRunning st)")
  show ?thesis
    using assms w by (simp add: doInscribe_try_def ensureServicesRunning_def)
qed

lemma doInscribe_try_no_height:
  assumes "servicesRunning e (trace st) = Inr True"
    and "fst (ensureWalletFunded e (emit EnsureServicesRunning st)) \<or> cfgNetwork e = regtest"
    and "rpcGetBlockCount e (trace (snd (ensureWalletFunded e (emit EnsureServicesRunning st)))) = Inl err"
  shows "doInscribe_try e filePath st =
           (Inl err, emit (RpcCall ''getblockcount'' [] None)
                       (snd (ensureWalletFunded e (emit EnsureServicesRunning st))))"
proof -
  obtain funded st2 where w: "ensureWalletFunded e (emit EnsureServicesRunning st) = (funded, st2)"
    by (cases "ensureWalletFunded e (emit EnsureServicesRunning st)")
  show ?thesis
    using assms w by (auto simp: doInscribe_try_def ensureServicesRunning_def getBlockCount_def)
qed

lemma doInscribe_try_not_synced:
  assumes "servicesRunning e (trace st) = Inr True"
    and "fst (ensureWalletFunded e (emit EnsureServicesRunning st)) \<or> cfgNetwork e = regtest"
    and "rpcGetBlockCount e (trace (snd (ensureWalletFunded e (emit EnsureServicesRunning st)))) = Inr h"
    and "\<not> waitForOrdSync e h 30000
            (emit (RpcCall ''getblockcount'' [] None)
               (snd (ensureWalletFunded e (emit EnsureServicesRunning st))))"
  shows "doInscribe_try e filePath st =
           (Inl ''Ord server failed to sync with bitcoind'',
            emit (RpcCall ''getblockcount'' [] None)
              (snd (ensureWalletFunded e (emit EnsureServicesRunning st))))"
proof -
  obtain funded st2 where w: "ensureWalletFunded e (emit EnsureServicesRunning st) = (funded, st2)"
    by (cases "ensureWalletFunded e (emit EnsureServicesRunning st)")
  show ?thesis
    using assms w
    by (auto simp: doInscribe_try_def ensureServicesRunning_def getBlockCount_def Let_def)
qed

lemma doInscribe_try_synced:
  assumes run: "servicesRunning e (trace st) = Inr True"
    and fund: "fst (ensureWalletFunded e (emit EnsureServicesRunning st)) \<or> cfgNetwork e = regtest"
    and height: "rpcGetBlockCount e (trace (snd (ensureWalletFunded e (emit EnsureServicesRunning st)))) = Inr h"
    and synced: "waitForOrdSync e h 30000
            (emit (RpcCall ''getblockcount'' [] None)
               (snd (ensureWalletFunded e (emit EnsureServicesRunning st))))"
  shows "filter isInscribe (trace (snd (doInscribe_try e filePath st))) =
           filter isInscribe (trace st) @ [InscribeFile filePath 1]"
proof -
  define st1 where "st1 = emit EnsureServicesRunning st"
  obtain funded st2 where w: "ensureWalletFunded e st1 = (funded, st2)"
    by (cases "ensureWalletFunded e st1")
  have f2: "filter isInscribe (trace st2) = filter isInscribe (trace st)"
    using ensureWalletFunded_no_inscribe [of e st1] w by (simp add: st1_def emit_def)
  define st3 where "st3 = emit (RpcCall ''getblockcount'' [] None) st2"
  have f3: "filter isInscribe (trace st3) = filter isInscribe (trace st)"
    using f2 by (simp add: st3_def emit_def)
  have fd: "funded \<or> cfgNetwork e = regtest"
    using fund w by (simp add: st1_def)
  have bc: "getBlockCount e st2 = (Inr h, st3)"
    using height w by (simp add: getBlockCount_def st3_def st1_def)
  have sy: "waitForOrdSync e h 30000 st3"
    using synced w by (simp add: st3_def st1_def)
  have "snd (doInscribe_try e filePath st) =
      snd (case inscribeFile e filePath 1 st3 of
             (Inl err, st4) \<Rightarrow> (Inl err, st4)
           | (Inr resultId, st4) \<Rightarrow>
               (let st5 = emit (AddInscription resultId (pathBasename e filePath)) st4;
                    st6 =
                      (if cfgNetwork e = regtest then
                         (case getOrdReceiveAddress e st5 of
                            (Inl err, s) \<Rightarrow> s
                          | (Inr address, s) \<Rightarrow> snd (generateToAddress e (Num 1) address s))
                       else st5)
                in (Inr (Some \<lparr>inscriptionId = resultId,
                              localUrl = ''http://127.0.0.1:'' @ showInt (cfgOrdServerPort e) @
                                ''/inscription/'' @ resultId,
                              inscribeError = None\<rparr>),
                    st6)))"
    using run fd w bc sy
    by (auto simp: doInscribe_try_def ensureServicesRunning_def st1_def [symmetric] Let_def)
  then show ?thesis
    using f3
    by (simp add: inscribeFile_def getOrdReceiveAddress_def generateToAddress_def emit_def
          Let_def split: sum.splits)
qed

text \<open>\<open>doInscribe\<close> around that body.\<close>

lemma doInscribe_declined:
  assumes "cfgNetwork e = mainnet" "warningChoice e (trace st) \<noteq> Some ''Continue''"
  shows "doInscribe e filePath st =
           emit (ShowWarningMessage
                   ''You are about to inscribe on MAINNET. This will cost real Bitcoin!'') st"
  using assms by (simp add: doInscribe_def Let_def)

lemma doInscribe_proceeds:
  assumes "cfgNetwork e = mainnet \<longrightarrow> warningChoice e (trace st) = Some ''Continue''"
  shows "filter isInscribe (trace (doInscribe e filePath st)) =
           filter isInscribe
             (trace (snd (doInscribe_try e filePath
                (if cfgNetwork e = mainnet then
                   emit (ShowWarningMessage
                           ''You are about to inscribe on MAINNET. This will cost real Bitcoin!'') st
                 else st))))"
proof -
  define st0 where "st0 =
      (if cfgNetwork e = mainnet then
         emit (ShowWarningMessage
                 ''You are about to inscribe on MAINNET. This will cost real Bitcoin!'') st
       else st)"
  obtain res sX where x: "doInscribe_try e filePath st0 = (res, sX)"
    by (cases "doInscribe_try e filePath st0")
  have "filter isInscribe (trace (doInscribe e filePath st)) = filter isInscribe (trace sX)"
    using assms x
    by (auto simp: doInscribe_def st0_def [symmetric] Let_def emit_def
          split: sum.splits option.splits)
  with x show ?thesis by (simp add: st0_def)
qed

lemma doInscribe_error:
  assumes "cfgNetwork e = mainnet \<longrightarrow> warningChoice e (trace st) = Some ''Continue''"
    and "doInscribe_try e filePath
           (if cfgNetwork e = mainnet then
              emit (ShowWarningMessage
                      ''You are about to inscribe on MAINNET. This will cost real Bitcoin!'') st
            else st) = (Inl err, sX)"
  shows "trace (doInscribe e filePath st) =
           trace sX @ [ShowErrorWithSuggestion ''Inscription failed'' err]"
  using assms by (auto simp: doInscribe_def Let_def emit_def)

text \<open>
  Claim C6. In a run of \<open>doInscribe\<close>, let the height be what \<open>getblockcount\<close> answers
  after the funding step of that run, and let the polls be those of the wait that follows;
  pass \<open>k\<close> of the wait starts after the 500 ms sleeps and the request times of the passes
  before it, and is made only while less than 30000 ms have gone by. Say the indexer has
  caught up in time when some pass made within the 30000 ms reads a height at or above the
  node's. Then: if the workflow does not get as far as the wait (declined on mainnet,
  services not running, wallet not funded off regtest), or no height is read,
  \<open>inscribeFile\<close> is not called. With a height \<open>h\<close> read (from 0 up to \<open>2^53\<close>): if the indexer does not
  catch up in time, \<open>inscribeFile\<close> is not called and a workflow that got as far as the
  wait ends by showing \<open>Inscription failed\<close> with \<open>Ord server failed to sync with bitcoind\<close>;
  if it does catch up in time, a workflow that got as far as the wait calls \<open>inscribeFile\<close>
  exactly once. The wait is bounded: \<open>waitForOrdSyncLoop\<close> is a total function.
\<close>

theorem doInscribe_waits_for_sync:
  fixes e :: env and filePath :: string and st :: state and h :: int
  defines "st0 \<equiv> (if cfgNetwork e = mainnet then
                     emit (ShowWarningMessage
                             ''You are about to inscribe on MAINNET. This will cost real Bitcoin!'') st
                   else st)"
  defines "st1 \<equiv> emit EnsureServicesRunning st0"
  defines "st2 \<equiv> snd (ensureWalletFunded e st1)"
  defines "polls \<equiv> syncPolls e (trace (emit (RpcCall ''getblockcount'' [] None) st2))"
  defines "reached \<equiv>
      (cfgNetwork e = mainnet \<longrightarrow> warningChoice e (trace st) = Some ''Continue'') \<and>
      servicesRunning e (trace st0) = Inr True \<and>
      (fst (ensureWalletFunded e st1) \<or> cfgNetwork e = regtest)"
  defines "caughtUpInTime \<equiv>
      (\<exists>k b. (\<Sum>j<k. 500 + snd (polls j)) < 30000 \<and>
             getOrdBlockCount (fst (polls k)) = Inr b \<and> ge b (Num h))"
  shows
    "(\<not> reached \<longrightarrow>
        filter isInscribe (trace (doInscribe e filePath st)) = filter isInscribe (trace st)) \<and>
     ((\<forall>n. rpcGetBlockCount e (trace st2) \<noteq> Inr (Num n)) \<longrightarrow>
        filter isInscribe (trace (doInscribe e filePath st)) = filter isInscribe (trace st)) \<and>
     (rpcGetBlockCount e (trace st2) = Inr (Num h) \<and> 0 \<le> h \<and> h \<le> 2 ^ 53 \<and> \<not> caughtUpInTime \<longrightarrow>
        filter isInscribe (trace (doInscribe e filePath st)) = filter isInscribe (trace st) \<and>
        (reached \<longrightarrow>
           last (trace (doInscribe e filePath st)) =
             ShowErrorWithSuggestion ''Inscription failed''
               ''Ord server failed to sync with bitcoind'')) \<and>
     (reached \<and> rpcGetBlockCount e (trace st2) = Inr (Num h) \<and> 0 \<le> h \<and> h \<le> 2 ^ 53 \<and> caughtUpInTime \<longrightarrow>
        filter isInscribe (trace (doInscribe e filePath st)) =
          filter isInscribe (trace st) @ [InscribeFile filePath 1])"
proof -
  define st3 where "st3 = emit (RpcCall ''getblockcount'' [] None) st2"
  define proceed where
    "proceed \<longleftrightarrow> (cfgNetwork e = mainnet \<longrightarrow> warningChoice e (trace st) = Some ''Continue'')"
  define running where "running \<longleftrightarrow> servicesRunning e (trace st0) = Inr True"
  define funded where "funded \<longleftrightarrow> fst (ensureWalletFunded e st1) \<or> cfgNetwork e = regtest"
  have reached: "reached \<longleftrightarrow> proceed \<and> running \<and> funded"
    by (simp add: reached_def proceed_def running_def funded_def)
  have f0: "filter isInscribe (trace st0) = filter isInscribe (trace st)"
    by (simp add: st0_def emit_def)
  have f1: "filter isInscribe (trace st1) = filter isInscribe (trace st)"
    using f0 by (simp add: st1_def emit_def)
  have f2: "filter isInscribe (trace st2) = filter isInscribe (trace st)"
    using ensureWalletFunded_no_inscribe [of e st1] f1 by (simp add: st2_def)
  have f3: "filter isInscribe (trace st3) = filter isInscribe (trace st)"
    using f2 by (simp add: st3_def emit_def)
  have sync: "waitForOrdSync e (Num h) 30000 st3 \<longleftrightarrow> caughtUpInTime"
    by (simp add: waitForOrdSync_iff caughtUpInTime_def polls_def st3_def)
  have syncNaN: "\<not> waitForOrdSync e NaN 30000 st3"
    by (simp add: waitForOrdSync_iff)
  have declined: "filter isInscribe (trace (doInscribe e filePath st)) = filter isInscribe (trace st)"
    if "\<not> proceed"
    using that doInscribe_declined [of e st filePath]
    by (auto simp: proceed_def emit_def)
  have body: "filter isInscribe (trace (doInscribe e filePath st)) =
      filter isInscribe (trace (snd (doInscribe_try e filePath st0)))"
    if "proceed"
    using that doInscribe_proceeds [of e st filePath]
    by (simp add: proceed_def st0_def)
  have notRunning: "snd (doInscribe_try e filePath st0) = st1" if "\<not> running"
    using that doInscribe_try_not_running [of e st0 filePath]
    by (simp add: running_def st1_def)
  have notFunded: "snd (doInscribe_try e filePath st0) =
      emit (ShowErrorMessage ''Wallet does not have enough funds. Please fund your wallet first.'') st2"
    if "running" "\<not> funded"
    using that doInscribe_try_not_funded [of e st0 filePath]
    by (simp add: running_def funded_def st1_def st2_def)
  have noHeight: "doInscribe_try e filePath st0 = (Inl err, st3)"
    if "running" "funded" "rpcGetBlockCount e (trace st2) = Inl err" for err
    using that doInscribe_try_no_height [of e st0 err filePath]
    by (simp add: running_def funded_def st1_def st2_def st3_def)
  have notSynced: "doInscribe_try e filePath st0 =
      (Inl ''Ord server failed to sync with bitcoind'', st3)"
    if "running" "funded" "rpcGetBlockCount e (trace st2) = Inr height"
      "\<not> waitForOrdSync e height 30000 st3" for height
    using that doInscribe_try_not_synced [of e st0 height filePath]
    by (simp add: running_def funded_def st1_def st2_def st3_def)
  have synced: "filter isInscribe (trace (snd (doInscribe_try e filePath st0))) =
      filter isInscribe (trace st) @ [InscribeFile filePath 1]"
    if "running" "funded" "rpcGetBlockCount e (trace st2) = Inr height"
      "waitForOrdSync e height 30000 st3" for height
    using that doInscribe_try_synced [of e st0 height filePath] f0
    by (simp add: running_def funded_def st1_def st2_def st3_def)
  have np: "filter isInscribe (trace (doInscribe e filePath st)) = filter isInscribe (trace st)"
    if c: "\<not> reached \<or> isl (rpcGetBlockCount e (trace st2)) \<or>
           (\<exists>height. rpcGetBlockCount e (trace st2) = Inr height \<and>
                     \<not> waitForOrdSync e height 30000 st3)"
  proof (cases proceed)
    case False
    then show ?thesis by (rule declined)
  next
    case p: True
    show ?thesis
    proof (cases running)
      case False
      with body [OF p] notRunning f1 show ?thesis by simp
    next
      case r: True
      show ?thesis
      proof (cases funded)
        case False
        with body [OF p] notFunded [OF r] f2 show ?thesis by (simp add: emit_def)
      next
        case fd: True
        from c p r fd reached
        consider err where "rpcGetBlockCount e (trace st2) = Inl err"
          | height where "rpcGetBlockCount e (trace st2) = Inr height"
              "\<not> waitForOrdSync e height 30000 st3"
          by (cases "rpcGetBlockCount e (trace st2)") auto
        then show ?thesis
        proof cases
          case 1
          with body [OF p] noHeight [OF r fd] f3 show ?thesis by simp
        next
          case 2
          with body [OF p] notSynced [OF r fd] f3 show ?thesis by simp
        qed
      qed
    qed
  qed
  have a: "\<not> reached \<longrightarrow>
        filter isInscribe (trace (doInscribe e filePath st)) = filter isInscribe (trace st)"
    using np by blast
  have b: "(\<forall>n. rpcGetBlockCount e (trace st2) \<noteq> Inr (Num n)) \<longrightarrow>
        filter isInscribe (trace (doInscribe e filePath st)) = filter isInscribe (trace st)"
  proof
    assume n: "\<forall>n. rpcGetBlockCount e (trace st2) \<noteq> Inr (Num n)"
    show "filter isInscribe (trace (doInscribe e filePath st)) = filter isInscribe (trace st)"
    proof (cases "rpcGetBlockCount e (trace st2)")
      case (Inl err)
      then show ?thesis using np by simp
    next
      case (Inr height)
      with n have "height = NaN" by (cases height) auto
      with Inr syncNaN show ?thesis using np by blast
    qed
  qed
  have c: "rpcGetBlockCount e (trace st2) = Inr (Num h) \<and> 0 \<le> h \<and> h \<le> 2 ^ 53 \<and> \<not> caughtUpInTime \<longrightarrow>
        filter isInscribe (trace (doInscribe e filePath st)) = filter isInscribe (trace st) \<and>
        (reached \<longrightarrow>
           last (trace (doInscribe e filePath st)) =
             ShowErrorWithSuggestion ''Inscription failed''
               ''Ord server failed to sync with bitcoind'')"
  proof
    assume asm: "rpcGetBlockCount e (trace st2) = Inr (Num h) \<and> 0 \<le> h \<and> h \<le> 2 ^ 53 \<and> \<not> caughtUpInTime"
    then have hgt: "rpcGetBlockCount e (trace st2) = Inr (Num h)"
      and ns: "\<not> waitForOrdSync e (Num h) 30000 st3"
      using sync by simp_all
    have one: "filter isInscribe (trace (doInscribe e filePath st)) = filter isInscribe (trace st)"
      using np hgt ns by blast
    have two: "last (trace (doInscribe e filePath st)) =
             ShowErrorWithSuggestion ''Inscription failed''
               ''Ord server failed to sync with bitcoind''"
      if "reached"
    proof -
      from that reached have p: proceed and r: running and fd: funded by simp_all
      have "trace (doInscribe e filePath st) =
          trace st3 @ [ShowErrorWithSuggestion ''Inscription failed''
                         ''Ord server failed to sync with bitcoind'']"
        using doInscribe_error [of e st filePath _ st3] p notSynced [OF r fd hgt ns]
        by (simp add: proceed_def st0_def)
      then show ?thesis by simp
    qed
    from one two show "filter isInscribe (trace (doInscribe e filePath st)) = filter isInscribe (trace st) \<and>
        (reached \<longrightarrow>
           last (trace (doInscribe e filePath st)) =
             ShowErrorWithSuggestion ''Inscription failed''
               ''Ord server failed to sync with bitcoind'')"
      by blast
  qed
  have d: "reached \<and> rpcGetBlockCount e (trace st2) = Inr (Num h) \<and> 0 \<le> h \<and> h \<le> 2 ^ 53 \<and> caughtUpInTime \<longrightarrow>
        filter isInscribe (trace (doInscribe e filePath st)) =
          filter isInscribe (trace st) @ [InscribeFile filePath 1]"
  proof
    assume asm: "reached \<and> rpcGetBlockCount e (trace st2) = Inr (Num h) \<and> 0 \<le> h \<and> h \<le> 2 ^ 53 \<and> caughtUpInTime"
    with reached have p: proceed and r: running and fd: funded
      and hgt: "rpcGetBlockCount e (trace st2) = Inr (Num h)"
      and sy: "waitForOrdSync e (Num h) 30000 st3"
      using sync by simp_all
    from body [OF p] synced [OF r fd hgt sy]
    show "filter isInscribe (trace (doInscribe e filePath st)) =
          filter isInscribe (trace st) @ [InscribeFile filePath 1]"
      by simp
  qed
  from a b c d show ?thesis by blast
qed

lemma getOrdBlockCount_100: "getOrdBlockCount (Response 200 ''100'') = Inr (Num 100)"
  by (simp add: parseInt_def trim_def isWhiteSpace_def isDigit_def digitsValue_def digitVal_def)

lemma getOrdBlockCount_101: "getOrdBlockCount (Response 200 ''101'') = Inr (Num 101)"
  by (simp add: parseInt_def trim_def isWhiteSpace_def isDigit_def digitsValue_def digitVal_def)

theorem doInscribe_waits_for_sync_witness:
  "filter isInscribe (trace (doInscribe slowEnv ''a.txt'' initState)) = [InscribeFile ''a.txt'' 1] \<and>
   filter isInscribe (trace (doInscribe lateEnv ''a.txt'' initState)) = [] \<and>
   last (trace (doInscribe lateEnv ''a.txt'' initState)) =
     ShowErrorWithSuggestion ''Inscription failed'' ''Ord server failed to sync with bitcoind'' \<and>
   filter isInscribe (trace (doInscribe laggingEnv ''a.txt'' initState)) = [] \<and>
   filter isInscribe (trace (doInscribe nodeDownEnv ''a.txt'' initState)) = [] \<and>
   filter isInscribe (trace (doInscribe mainnetEnv ''a.txt'' initState)) = []"
proof -
  have t0: "trace initState = []"
    by (simp add: initState_def)
  have slow: "cfgNetwork slowEnv = regtest" "servicesRunning slowEnv tr = Inr True"
    "rpcGetBlockCount slowEnv tr = Inr (Num 101)"
    "syncPolls slowEnv tr i = (if i < 3 then Response 200 ''100'' else Response 200 ''101'', 0)"
    for tr i
    by (simp_all add: slowEnv_def baseEnv_def)
  have late: "cfgNetwork lateEnv = regtest" "servicesRunning lateEnv tr = Inr True"
    "rpcGetBlockCount lateEnv tr = Inr (Num 101)"
    "syncPolls lateEnv tr i = (if i < 60 then Response 200 ''100'' else Response 200 ''101'', 0)"
    for tr i
    by (simp_all add: lateEnv_def baseEnv_def)
  have lag: "cfgNetwork laggingEnv = regtest" "servicesRunning laggingEnv tr = Inr True"
    "rpcGetBlockCount laggingEnv tr = Inr (Num 101)"
    "syncPolls laggingEnv tr i = (Response 200 ''100'', 0)" for tr i
    by (simp_all add: laggingEnv_def baseEnv_def)
  have down: "rpcGetBlockCount nodeDownEnv tr = Inl ''connect ECONNREFUSED''" for tr
    by (simp add: nodeDownEnv_def)
  have main: "cfgNetwork mainnetEnv = mainnet" "warningChoice mainnetEnv tr = None" for tr
    by (simp_all add: mainnetEnv_def baseEnv_def)
  have cu: "\<exists>k b. (\<Sum>j<k. 500 + snd (syncPolls slowEnv tr j)) < 30000 \<and>
      getOrdBlockCount (fst (syncPolls slowEnv tr k)) = Inr b \<and> ge b (Num 101)" for tr
  proof (intro exI conjI)
    show "(\<Sum>j<3. 500 + snd (syncPolls slowEnv tr j)) < 30000"
      by (simp add: slow)
    show "getOrdBlockCount (fst (syncPolls slowEnv tr 3)) = Inr (Num 101)"
      by (simp add: slow getOrdBlockCount_101 del: getOrdBlockCount.simps)
    show "ge (Num 101) (Num 101)"
      by simp
  qed
  have ncu: "\<not> (\<exists>k b. (\<Sum>j<k. 500 + snd (syncPolls lateEnv tr j)) < 30000 \<and>
      getOrdBlockCount (fst (syncPolls lateEnv tr k)) = Inr b \<and> ge b (Num 101))" for tr
  proof
    assume "\<exists>k b. (\<Sum>j<k. 500 + snd (syncPolls lateEnv tr j)) < 30000 \<and>
      getOrdBlockCount (fst (syncPolls lateEnv tr k)) = Inr b \<and> ge b (Num 101)"
    then obtain k b where k: "(\<Sum>j<k. 500 + snd (syncPolls lateEnv tr j)) < 30000"
      and b: "getOrdBlockCount (fst (syncPolls lateEnv tr k)) = Inr b" "ge b (Num 101)"
      by blast
    from k have "k < 60" by (simp add: late)
    with b(1) have "b = Num 100"
      by (simp add: late getOrdBlockCount_100 del: getOrdBlockCount.simps)
    with b(2) show False by simp
  qed
  have nlag: "\<not> (\<exists>k b. (\<Sum>j<k. 500 + snd (syncPolls laggingEnv tr j)) < 30000 \<and>
      getOrdBlockCount (fst (syncPolls laggingEnv tr k)) = Inr b \<and> ge b (Num 101))" for tr
    by (auto simp: lag getOrdBlockCount_100 simp del: getOrdBlockCount.simps)
  have bound: "(0::int) \<le> 101" "(101::int) \<le> 2 ^ 53"
    by simp_all
  have a: "filter isInscribe (trace (doInscribe slowEnv ''a.txt'' initState)) =
      [InscribeFile ''a.txt'' 1]"
    using doInscribe_waits_for_sync
            [where e = slowEnv and st = initState and filePath = "''a.txt''" and h = 101]
          cu bound
    by (simp add: slow(1,2,3) t0)
  have b: "filter isInscribe (trace (doInscribe lateEnv ''a.txt'' initState)) = [] \<and>
      last (trace (doInscribe lateEnv ''a.txt'' initState)) =
        ShowErrorWithSuggestion ''Inscription failed'' ''Ord server failed to sync with bitcoind''"
    using doInscribe_waits_for_sync
            [where e = lateEnv and st = initState and filePath = "''a.txt''" and h = 101]
          ncu bound
    by (simp add: late(1,2,3) t0)
  have c: "filter isInscribe (trace (doInscribe laggingEnv ''a.txt'' initState)) = []"
    using doInscribe_waits_for_sync
            [where e = laggingEnv and st = initState and filePath = "''a.txt''" and h = 101]
          nlag bound
    by (simp add: lag(1,2,3) t0)
  have d: "filter isInscribe (trace (doInscribe nodeDownEnv ''a.txt'' initState)) = []"
    using doInscribe_waits_for_sync
            [where e = nodeDownEnv and st = initState and filePath = "''a.txt''" and h = 101]
    by (simp add: down t0)
  have e: "filter isInscribe (trace (doInscribe mainnetEnv ''a.txt'' initState)) = []"
    using doInscribe_waits_for_sync
            [where e = mainnetEnv and st = initState and filePath = "''a.txt''" and h = 101]
    by (simp add: main t0)
  from a b c d e show ?thesis by blast
qed

end
